theory Spec2Isabelle
  imports Main
begin

section \<open>Python strings\<close>

text \<open>
  A Python \<^verbatim>\<open>str\<close> is a sequence of Unicode code points, and the regular expressions of
  \<^verbatim>\<open>scraper.py\<close> test code-point ranges, so a string is a list of code points here.
  ASCII literals of the source are written with \<open>py_str\<close>.
\<close>

type_synonym pystr = "nat list"

definition py_str :: "string \<Rightarrow> pystr" where
  "py_str s = map of_char s"

text \<open>The character class \<^verbatim>\<open>[\u0D00-\u0D7F]\<close> (0x0D00 = 3328, 0x0D7F = 3455).\<close>

definition is_malayalam :: "nat \<Rightarrow> bool" where
  "is_malayalam c \<longleftrightarrow> 3328 \<le> c \<and> c \<le> 3455"

text \<open>\<^verbatim>\<open>re.search(r"[\u0D00-\u0D7F]", text)\<close> read as a truth value.\<close>

definition re_search_malayalam :: "pystr \<Rightarrow> bool" where
  "re_search_malayalam text = list_ex is_malayalam text"

text \<open>
  The white space of \<^verbatim>\<open>str.strip()\<close>, \<^verbatim>\<open>str.isspace()\<close> and of \<^verbatim>\<open>\s\<close> in a \<^verbatim>\<open>str\<close> pattern:
  U+0009..U+000D, U+001C..U+0020, U+0085, U+00A0, U+1680, U+2000..U+200A, U+2028, U+2029,
  U+202F, U+205F, U+3000.
\<close>

definition py_isspace :: "nat \<Rightarrow> bool" where
  "py_isspace c \<longleftrightarrow>
     (9 \<le> c \<and> c \<le> 13) \<or> (28 \<le> c \<and> c \<le> 32) \<or> c = 133 \<or> c = 160 \<or> c = 5760 \<or>
     (8192 \<le> c \<and> c \<le> 8202) \<or> c = 8232 \<or> c = 8233 \<or> c = 8239 \<or> c = 8287 \<or> c = 12288"

definition py_strip :: "pystr \<Rightarrow> pystr" where
  "py_strip s = rev (dropWhile py_isspace (rev (dropWhile py_isspace s)))"

text \<open>\<^verbatim>\<open>sep.join(xs)\<close>.\<close>

fun py_join :: "pystr \<Rightarrow> pystr list \<Rightarrow> pystr" where
  "py_join sep [] = []"
| "py_join sep [x] = x"
| "py_join sep (x # y # ys) = x @ sep @ py_join sep (y # ys)"

text \<open>\<^verbatim>\<open>text.startswith(old)\<close> and \<^verbatim>\<open>old in text\<close>.\<close>

fun py_startswith :: "pystr \<Rightarrow> pystr \<Rightarrow> bool" where
  "py_startswith text [] = True"
| "py_startswith [] (c # old) = False"
| "py_startswith (d # text) (c # old) = (d = c \<and> py_startswith text old)"

fun py_in :: "pystr \<Rightarrow> pystr \<Rightarrow> bool" where
  "py_in old [] = (old = [])"
| "py_in old (c # text) = (py_startswith (c # text) old \<or> py_in old text)"

text \<open>
  \<^verbatim>\<open>text.replace(old, new)\<close>: the occurrences of \<open>old\<close> are replaced from left to right
  without overlap. With an empty \<open>old\<close> Python puts \<open>new\<close> before every character and at
  the end.
\<close>

function py_replace :: "pystr \<Rightarrow> pystr \<Rightarrow> pystr \<Rightarrow> pystr" where
  "py_replace [] old new = (if old = [] then new else [])"
| "py_replace (c # cs) old new =
     (if old = [] then new @ concat (map (\<lambda>d. d # new) (c # cs))
      else if py_startswith (c # cs) old
      then new @ py_replace (drop (length old) (c # cs)) old new
      else c # py_replace cs old new)"
  by pat_completeness auto
termination
  by (relation "measure (\<lambda>(text, old, new). length text)") auto

text \<open>
  \<^verbatim>\<open>str.lower()\<close> and \<^verbatim>\<open>str.capitalize()\<close>. On a string of ASCII characters they map the
  letters A-Z and a-z. On a string with a code point outside ASCII Python follows the
  Unicode case tables (with their context rules), which are not part of this
  development: there the result is what the table \<open>tbl\<close> gives for the whole string. The
  tables are fields of the record \<open>world\<close> below.
\<close>

definition is_ascii :: "nat \<Rightarrow> bool" where
  "is_ascii c \<longleftrightarrow> c < 128"

definition lower_char :: "nat \<Rightarrow> nat" where
  "lower_char c = (if 65 \<le> c \<and> c \<le> 90 then c + 32 else c)"

definition upper_char :: "nat \<Rightarrow> nat" where
  "upper_char c = (if 97 \<le> c \<and> c \<le> 122 then c - 32 else c)"

definition ascii_lower :: "pystr \<Rightarrow> pystr" where
  "ascii_lower s = map lower_char s"

definition py_lower :: "(pystr \<Rightarrow> pystr) \<Rightarrow> pystr \<Rightarrow> pystr" where
  "py_lower tbl s = (if list_all is_ascii s then ascii_lower s else tbl s)"

definition py_capitalize :: "(pystr \<Rightarrow> pystr) \<Rightarrow> pystr \<Rightarrow> pystr" where
  "py_capitalize tbl s =
     (if list_all is_ascii s
      then (case s of [] \<Rightarrow> [] | c # cs \<Rightarrow> upper_char c # map lower_char cs)
      else tbl s)"

text \<open>
  The decimal digits of a \<^verbatim>\<open>str\<close> pattern's \<^verbatim>\<open>\d\<close> and of \<^verbatim>\<open>int()\<close>: the code points of
  Unicode category Nd (Unicode 14.0, the database of CPython 3.10 and 3.11). Every run
  of ten starts at its digit zero; \<open>decimal_zeros\<close> lists these zeros, the five runs of
  mathematical digits from U+1D7CE included.
\<close>

definition decimal_zeros :: "nat list" where
  "decimal_zeros =
     [48, 1632, 1776, 1984, 2406, 2534, 2662, 2790, 2918, 3046, 3174, 3302, 3430, 3558,
      3664, 3792, 3872, 4160, 4240, 6112, 6160, 6470, 6608, 6784, 6800, 6992, 7088, 7232,
      7248, 42528, 43216, 43264, 43472, 43504, 43600, 44016, 65296, 66720, 68912, 69734,
      69872, 69942, 70096, 70384, 70736, 70864, 71248, 71360, 71472, 71904, 72016, 72784,
      73040, 73120, 92768, 92864, 93008, 120782, 120792, 120802, 120812, 120822, 123200,
      123632, 125264, 130032]"

definition uni_decimal :: "nat \<Rightarrow> nat option" where
  "uni_decimal c =
     (case find (\<lambda>z. z \<le> c \<and> c \<le> z + 9) decimal_zeros of
        Some z \<Rightarrow> Some (c - z)
      | None \<Rightarrow> None)"

definition uni_isdecimal :: "nat \<Rightarrow> bool" where
  "uni_isdecimal c = (uni_decimal c \<noteq> None)"

section \<open>The constant tables of scraper.py\<close>

definition MEDIA_MAP :: "(pystr \<times> pystr) list" where
  "MEDIA_MAP =
     [(py_str ''manoramaonline'', py_str ''Malayala Manorama''),
      (py_str ''onmanorama'', py_str ''Onmanorama''),
      (py_str ''mathrubhumi'', py_str ''Mathrubhumi News''),
      (py_str ''asianetnews'', py_str ''Asianet News''),
      (py_str ''keralakaumudi'', py_str ''Kerala Kaumudi''),
      (py_str ''janmabhumi'', py_str ''Janmabhumi''),
      (py_str ''deshabhimani'', py_str ''Deshabhimani''),
      (py_str ''news18'', py_str ''News18 Malayalam''),
      (py_str ''thehindu'', py_str ''The Hindu''),
      (py_str ''timesofindia'', py_str ''Times of India''),
      (py_str ''indiatoday'', py_str ''India Today'')]"

text \<open>
  The Malayalam month names, as the code points of the source file, in the order of the
  dictionary literal (the order \<^verbatim>\<open>.items()\<close> iterates in).
\<close>

definition MALAYALAM_MONTHS :: "(pystr \<times> pystr) list" where
  "MALAYALAM_MONTHS =
     [([3356, 3368, 3393, 3381, 3376, 3391], py_str ''January''),
      ([3371, 3398, 3372, 3405, 3376, 3393, 3381, 3376, 3391], py_str ''February''),
      ([3374, 3390, 3452, 3354, 3405, 3354, 3405], py_str ''March''),
      ([3343, 3370, 3405, 3376, 3391, 3453], py_str ''April''),
      ([3374, 3399, 3375, 3405], py_str ''May''),
      ([3356, 3394, 3450], py_str ''June''),
      ([3356, 3394, 3378, 3400], py_str ''July''),
      ([3334, 3351, 3384, 3405, 3377, 3405, 3377, 3405], py_str ''August''),
      ([3384, 3398, 3370, 3405, 3377, 3405, 3377, 3330, 3372, 3452], py_str ''September''),
      ([3346, 3349, 3405, 3359, 3403, 3372, 3452], py_str ''October''),
      ([3368, 3381, 3330, 3372, 3452], py_str ''November''),
      ([3361, 3391, 3384, 3330, 3372, 3452], py_str ''December''),
      ([3361, 3391, 3384, 3330], py_str ''December'')]"

section \<open>The outside world\<close>

text \<open>
  Every call into a networked or third-party library (requests, BeautifulSoup,
  tldextract, newspaper, htmldate, deep_translator) is a field of the record \<open>world\<close>
  below: what the call returns or the exception it raises. An exception carries its
  \<^verbatim>\<open>str(e)\<close>.
\<close>

datatype exn = Exception pystr

section \<open>translate_text_if_needed\<close>

text \<open>
  The result is paired with the list of texts that were sent to the translation
  service, so that a call made is visible in the value. \<open>translate\<close> is
  \<^verbatim>\<open>GoogleTranslator(source="auto", target="en").translate\<close>.
\<close>

definition translate_text_if_needed ::
    "(pystr \<Rightarrow> exn + pystr) \<Rightarrow> pystr \<Rightarrow> pystr \<times> pystr list" where
  "translate_text_if_needed translate text =
     (if text \<noteq> [] \<and> re_search_malayalam text then
        (case translate text of
           Inr translated \<Rightarrow> (translated, [text])
         | Inl e \<Rightarrow> (text, [text]))
      else (text, []))"

section \<open>datetime.strptime and strftime\<close>

text \<open>
  \<^verbatim>\<open>extract_malayalam_date\<close> parses with \<^verbatim>\<open>datetime.strptime\<close>. The standard library turns
  a format into a regular expression, matches it at the start of the text with
  \<^verbatim>\<open>re.IGNORECASE\<close>, and raises \<^verbatim>\<open>ValueError\<close> when nothing matches, when text is left
  after the match, or when the fields are no calendar date. The three directives of the
  source's formats are modelled:
  \<^item> \<^verbatim>\<open>%d\<close> is \<^verbatim>\<open>3[0-1]|[1-2]\d|0[1-9]|[1-9]| [1-9]\<close>;
  \<^item> \<^verbatim>\<open>%B\<close> is the alternation of the English month names, longest first;
  \<^item> \<^verbatim>\<open>%Y\<close> is \<^verbatim>\<open>\d\d\d\d\<close>;
  \<^item> a run of white space in the format is \<^verbatim>\<open>\s+\<close>; any other character stands for itself.
\<close>

datatype fmt_item = Day | MonthName | Year4 | Spaces | Lit nat

text \<open>
  The format string as a list of items; \<open>None\<close> for a directive other than the three
  (no format of the source has one).
\<close>

fun compile_format :: "pystr \<Rightarrow> fmt_item list option" where
  "compile_format [] = Some []"
| "compile_format [c] =
     (if c = 37 then None else if py_isspace c then Some [Spaces] else Some [Lit c])"
| "compile_format (c # d # cs) =
     (if c = 37 then
        (case compile_format cs of
           None \<Rightarrow> None
         | Some items \<Rightarrow>
             if d = 100 then Some (Day # items)
             else if d = 66 then Some (MonthName # items)
             else if d = 89 then Some (Year4 # items)
             else None)
      else if py_isspace c then
        (case compile_format (d # cs) of
           None \<Rightarrow> None
         | Some items \<Rightarrow> (case items of Spaces # _ \<Rightarrow> Some items | _ \<Rightarrow> Some (Spaces # items)))
      else
        (case compile_format (d # cs) of
           None \<Rightarrow> None
         | Some items \<Rightarrow> Some (Lit c # items)))"

definition month_names :: "pystr list" where
  "month_names =
     [py_str ''january'', py_str ''february'', py_str ''march'', py_str ''april'',
      py_str ''may'', py_str ''june'', py_str ''july'', py_str ''august'',
      py_str ''september'', py_str ''october'', py_str ''november'', py_str ''december'']"

text \<open>The order of the alternation of \<^verbatim>\<open>%B\<close>: the names sorted by length, longest first.\<close>

definition month_alternation :: "pystr list" where
  "month_alternation =
     [py_str ''september'', py_str ''february'', py_str ''november'', py_str ''december'',
      py_str ''january'', py_str ''october'', py_str ''august'', py_str ''march'',
      py_str ''april'', py_str ''june'', py_str ''july'', py_str ''may'']"

text \<open>
  The ways one item matches at the start of \<open>s\<close>, in the order the backtracking
  matcher tries them: the matched text and the rest. A month name is compared on the
  ASCII letters without case. (A non-ASCII letter that the matcher folds to an ASCII
  one, such as U+017F for s, is then not found by the lookup of the lowered name, which
  raises \<^verbatim>\<open>ValueError\<close>: the parse fails as it does here.)
\<close>

definition day_alts :: "pystr \<Rightarrow> (pystr \<times> pystr) list" where
  "day_alts s =
     (case s of
        a # b # r \<Rightarrow>
          (if a = 51 \<and> (b = 48 \<or> b = 49) then [([a, b], r)] else []) @
          (if (a = 49 \<or> a = 50) \<and> uni_isdecimal b then [([a, b], r)] else []) @
          (if a = 48 \<and> 49 \<le> b \<and> b \<le> 57 then [([a, b], r)] else []) @
          (if 49 \<le> a \<and> a \<le> 57 then [([a], b # r)] else []) @
          (if a = 32 \<and> 49 \<le> b \<and> b \<le> 57 then [([a, b], r)] else [])
      | [a] \<Rightarrow> (if 49 \<le> a \<and> a \<le> 57 then [([a], [])] else [])
      | [] \<Rightarrow> [])"

definition month_alts :: "pystr \<Rightarrow> (pystr \<times> pystr) list" where
  "month_alts s =
     map (\<lambda>name. (take (length name) s, drop (length name) s))
       (filter (\<lambda>name. length name \<le> length s \<and> ascii_lower (take (length name) s) = name)
          month_alternation)"

definition year_alts :: "pystr \<Rightarrow> (pystr \<times> pystr) list" where
  "year_alts s =
     (case s of
        a # b # c # d # r \<Rightarrow>
          (if uni_isdecimal a \<and> uni_isdecimal b \<and> uni_isdecimal c \<and> uni_isdecimal d
           then [([a, b, c, d], r)] else [])
      | _ \<Rightarrow> [])"

definition spaces_alts :: "pystr \<Rightarrow> (pystr \<times> pystr) list" where
  "spaces_alts s =
     map (\<lambda>k. (take k s, drop k s)) (rev [1 ..< Suc (length (takeWhile py_isspace s))])"

definition lit_alts :: "nat \<Rightarrow> pystr \<Rightarrow> (pystr \<times> pystr) list" where
  "lit_alts c s = (case s of a # r \<Rightarrow> (if a = c then [([a], r)] else []) | [] \<Rightarrow> [])"

fun item_alts :: "fmt_item \<Rightarrow> pystr \<Rightarrow> (pystr \<times> pystr) list" where
  "item_alts Day s = day_alts s"
| "item_alts MonthName s = month_alts s"
| "item_alts Year4 s = year_alts s"
| "item_alts Spaces s = spaces_alts s"
| "item_alts (Lit c) s = lit_alts c s"

text \<open>
  All the matches of a list of items at the start of \<open>s\<close>, first the one the matcher
  finds: the text of every item, and the text left after the match.
\<close>

fun match_items :: "fmt_item list \<Rightarrow> pystr \<Rightarrow> ((fmt_item \<times> pystr) list \<times> pystr) list" where
  "match_items [] s = [([], s)]"
| "match_items (it # its) s =
     concat (map (\<lambda>(m, r). map (\<lambda>(gs, r'). ((it, m) # gs, r')) (match_items its r))
               (item_alts it s))"

text \<open>
  \<^verbatim>\<open>int()\<close> on the text of a digit group: surrounding white space is dropped, and every
  decimal digit of Unicode counts with its value.
\<close>

definition py_int :: "pystr \<Rightarrow> nat option" where
  "py_int s =
     (let t = py_strip s in
      if t \<noteq> [] \<and> list_all uni_isdecimal t
      then Some (foldl (\<lambda>acc c. 10 * acc + (case uni_decimal c of Some v \<Rightarrow> v | None \<Rightarrow> 0)) 0 t)
      else None)"

text \<open>The position of \<open>x\<close> in \<open>xs\<close>, as \<^verbatim>\<open>list.index\<close>; \<open>None\<close> where Python raises.\<close>

fun py_index :: "pystr list \<Rightarrow> pystr \<Rightarrow> nat option" where
  "py_index [] x = None"
| "py_index (y # ys) x = (if x = y then Some 0 else map_option Suc (py_index ys x))"

datatype date = Date (year: nat) (month: nat) (day: nat)

definition is_leap :: "nat \<Rightarrow> bool" where
  "is_leap y \<longleftrightarrow> y mod 4 = 0 \<and> (y mod 100 \<noteq> 0 \<or> y mod 400 = 0)"

definition days_in_month :: "nat \<Rightarrow> nat \<Rightarrow> nat" where
  "days_in_month y m =
     (if m = 2 then (if is_leap y then 29 else 28)
      else if m = 4 \<or> m = 6 \<or> m = 9 \<or> m = 11 then 30 else 31)"

text \<open>The check of the \<^verbatim>\<open>datetime\<close> constructor: years 1 to 9999, a day of the month.\<close>

definition valid_date :: "nat \<Rightarrow> nat \<Rightarrow> nat \<Rightarrow> bool" where
  "valid_date y m d \<longleftrightarrow>
     1 \<le> y \<and> y \<le> 9999 \<and> 1 \<le> m \<and> m \<le> 12 \<and> 1 \<le> d \<and> d \<le> days_in_month y m"

text \<open>
  \<open>strptime\<close> returns \<open>None\<close> where Python raises \<^verbatim>\<open>ValueError\<close>. A field the format does
  not name has Python's default (1900, 1, 1).
\<close>

definition strptime :: "pystr \<Rightarrow> pystr \<Rightarrow> date option" where
  "strptime data_string format =
     (case compile_format format of
        None \<Rightarrow> None
      | Some items \<Rightarrow>
          (case match_items items data_string of
             [] \<Rightarrow> None
           | (found, rest) # _ \<Rightarrow>
               if rest \<noteq> [] then None
               else
                 (let y = (case map_of found Year4 of None \<Rightarrow> Some 1900 | Some t \<Rightarrow> py_int t);
                      m = (case map_of found MonthName of
                             None \<Rightarrow> Some 1
                           | Some t \<Rightarrow> map_option Suc (py_index month_names (ascii_lower t)));
                      d = (case map_of found Day of None \<Rightarrow> Some 1 | Some t \<Rightarrow> py_int t)
                  in case (y, m, d) of
                       (Some y', Some m', Some d') \<Rightarrow>
                         if valid_date y' m' d' then Some (Date y' m' d') else None
                     | _ \<Rightarrow> None)))"

text \<open>
  \<^verbatim>\<open>.strftime("%Y-%m-%d")\<close> as the C library of the deployment (Linux, glibc) prints it:
  month and day on two digits, the year in decimal without leading zeros, so that a
  year below 1000 has fewer than four digits (\<open>999-12-07\<close>). A \<^verbatim>\<open>datetime\<close> has a year from
  1 to 9999.
\<close>

definition digit_char :: "nat \<Rightarrow> nat" where
  "digit_char n = 48 + n mod 10"

definition year_digits :: "nat \<Rightarrow> pystr" where
  "year_digits y =
     (if y < 10 then [digit_char y]
      else if y < 100 then [digit_char (y div 10), digit_char y]
      else if y < 1000 then [digit_char (y div 100), digit_char (y div 10), digit_char y]
      else [digit_char (y div 1000), digit_char (y div 100), digit_char (y div 10),
            digit_char y])"

definition strftime_Ymd :: "date \<Rightarrow> pystr" where
  "strftime_Ymd dt =
     year_digits (year dt) @
     [45, digit_char (month dt div 10), digit_char (month dt), 45,
      digit_char (day dt div 10), digit_char (day dt)]"

section \<open>extract_malayalam_date\<close>

definition FORMATS :: "pystr list" where
  "FORMATS = [py_str ''%d %B %Y'', py_str ''%d-%B-%Y'', py_str ''%d %B, %Y'']"

text \<open>
  The inner loop: the first format that parses \<open>fixed\<close> returns; a format that raises
  is passed over.
\<close>

fun try_formats :: "pystr \<Rightarrow> pystr list \<Rightarrow> pystr option" where
  "try_formats fixed [] = None"
| "try_formats fixed (fmt # fmts) =
     (case strptime fixed fmt of
        Some dt \<Rightarrow> Some (strftime_Ymd dt)
      | None \<Rightarrow> try_formats fixed fmts)"

text \<open>
  The outer loop over \<^verbatim>\<open>MALAYALAM_MONTHS.items()\<close>: a month whose name is in the text
  has every occurrence replaced, and the whole replaced text is parsed; when no format
  parses it the loop goes on with the next month.
\<close>

fun month_loop :: "pystr \<Rightarrow> (pystr \<times> pystr) list \<Rightarrow> pystr option" where
  "month_loop text [] = None"
| "month_loop text ((ml, eng) # months) =
     (if py_in ml text then
        (case try_formats (py_replace text ml eng) FORMATS of
           Some r \<Rightarrow> Some r
         | None \<Rightarrow> month_loop text months)
      else month_loop text months)"

definition extract_malayalam_date :: "pystr \<Rightarrow> pystr option" where
  "extract_malayalam_date text = month_loop text MALAYALAM_MONTHS"

section \<open>extract_malayalam_text\<close>

text \<open>
  What the program reads of a parsed page: \<open>soup_title\<close> is \<^verbatim>\<open>soup.title.text\<close> when the
  page has a \<^verbatim>\<open><title>\<close> tag (a tag is truthy even when its text is empty);
  \<open>soup_paragraphs\<close> are the texts \<^verbatim>\<open>p.get_text(" ", strip=True)\<close> of
  \<^verbatim>\<open>soup.find_all("p")\<close>, in order; \<open>soup_text\<close> is \<^verbatim>\<open>soup.text\<close>.
\<close>

record soup =
  soup_title :: "pystr option"
  soup_paragraphs :: "pystr list"
  soup_text :: pystr

text \<open>
  \<^verbatim>\<open>re.sub(r"[^ \u0D00-\u0D7F]+", " ", text)\<close>: every maximal run of characters that are
  neither a space nor in the Malayalam block becomes one space.
\<close>

definition kept_char :: "nat \<Rightarrow> bool" where
  "kept_char c \<longleftrightarrow> c = 32 \<or> is_malayalam c"

function re_sub_other :: "pystr \<Rightarrow> pystr" where
  "re_sub_other [] = []"
| "re_sub_other (c # cs) =
     (if kept_char c then c # re_sub_other cs
      else 32 # re_sub_other (dropWhile (\<lambda>d. \<not> kept_char d) cs))"
  by pat_completeness auto
termination
  by (relation "measure length") (auto simp: length_dropWhile_le less_Suc_eq_le)

text \<open>The loop over the paragraphs, \<open>mal\<close> the list it appends to.\<close>

fun collect_malayalam :: "pystr list \<Rightarrow> pystr list \<Rightarrow> pystr list" where
  "collect_malayalam [] mal = mal"
| "collect_malayalam (text # ps) mal =
     (if re_search_malayalam text
      then collect_malayalam ps (mal @ [py_strip (re_sub_other text)])
      else collect_malayalam ps mal)"

definition extract_malayalam_text :: "soup \<Rightarrow> pystr" where
  "extract_malayalam_text sp =
     (let mal = collect_malayalam (soup_paragraphs sp) []
      in if mal \<noteq> [] then py_join [32] mal else [])"

section \<open>analyze_news_article\<close>

text \<open>
  The structured pass of newspaper: \<open>art_title\<close> is \<^verbatim>\<open>article.title\<close>; \<open>art_publish_date\<close>
  is \<open>None\<close> for a falsy \<^verbatim>\<open>article.publish_date\<close>, \<open>Some (Inr d)\<close> for a datetime of
  date \<open>d\<close>, and \<open>Some (Inl e)\<close> for a truthy value whose \<^verbatim>\<open>strftime\<close> raises. The
  \<^verbatim>\<open>try\<close> block either runs to its end, or raises: then the variable \<^verbatim>\<open>article\<close> is
  \<^verbatim>\<open>None\<close> or the object as far as it was built.

  Besides the library calls of \<^verbatim>\<open>scraper.py\<close> the record \<open>world\<close> holds the Unicode case
  tables of the runtime and \<open>render_json\<close>, the rendering of the dictionary that
  \<^verbatim>\<open>JSONResponse(content=data)\<close> does in \<^verbatim>\<open>api.py\<close> (it raises, for instance, on a string
  that cannot be encoded).
\<close>

record article =
  art_title :: pystr
  art_publish_date :: "(exn + date) option"

datatype article_run = Completed article | Raised "article option"

record world =
  requests_get :: "pystr \<Rightarrow> exn + pystr"
  BeautifulSoup :: "pystr \<Rightarrow> exn + soup"
  tldextract_domain :: "pystr \<Rightarrow> exn + pystr"
  newspaper_article :: "pystr \<Rightarrow> article_run"
  find_date :: "pystr \<Rightarrow> exn + pystr option"
  translate :: "pystr \<Rightarrow> exn + pystr"
  unicode_lower :: "pystr \<Rightarrow> pystr"
  unicode_capitalize :: "pystr \<Rightarrow> pystr"
  render_json :: "(string \<times> pystr) list \<Rightarrow> exn + unit"

text \<open>The returned dictionary, in the order of its literal.\<close>

type_synonym pydict = "(string \<times> pystr) list"

definition NO_TITLE :: pystr where
  "NO_TITLE = py_str ''No Title Found''"

definition NO_SUMMARY :: pystr where
  "NO_SUMMARY = py_str ''No readable Malayalam content found.''"

definition NO_DATE :: pystr where
  "NO_DATE = py_str ''Date Not Found''"

text \<open>The truth value of \<^verbatim>\<open>pub_date_str\<close>: \<^verbatim>\<open>None\<close> and the empty string are falsy.\<close>

definition truthy :: "pystr option \<Rightarrow> bool" where
  "truthy v = (case v of None \<Rightarrow> False | Some s \<Rightarrow> s \<noteq> [])"

text \<open>The page fetch: \<^verbatim>\<open>requests.get(...).text\<close>, and the empty page when it raises.\<close>

definition fetch_html :: "world \<Rightarrow> pystr \<Rightarrow> pystr" where
  "fetch_html w url = (case requests_get w url of Inr t \<Rightarrow> t | Inl e \<Rightarrow> [])"

text \<open>The title before translation: the \<^verbatim>\<open>try\<close> block and its \<^verbatim>\<open>except\<close> handler.\<close>

definition title_step :: "article_run \<Rightarrow> soup \<Rightarrow> pystr" where
  "title_step run sp =
     (case run of
        Completed a \<Rightarrow> if art_title a \<noteq> [] then py_strip (art_title a) else NO_TITLE
      | Raised _ \<Rightarrow> (case soup_title sp of Some t \<Rightarrow> py_strip t | None \<Rightarrow> NO_TITLE))"

definition article_var :: "article_run \<Rightarrow> article option" where
  "article_var run = (case run of Completed a \<Rightarrow> Some a | Raised ao \<Rightarrow> ao)"

text \<open>Method A: htmldate. \<open>pub_date_str\<close> is \<^verbatim>\<open>None\<close> before it.\<close>

definition method_a :: "world \<Rightarrow> pystr \<Rightarrow> pystr option" where
  "method_a w url =
     (case find_date w url of
        Inr (Some found) \<Rightarrow> if found \<noteq> [] then Some found else None
      | Inr None \<Rightarrow> None
      | Inl e \<Rightarrow> None)"

text \<open>Method B: Malayalam inside HTML.\<close>

definition method_b :: "soup \<Rightarrow> pystr option \<Rightarrow> pystr option" where
  "method_b sp pub_date_str =
     (if \<not> truthy pub_date_str then
        (case extract_malayalam_date (soup_text sp) of
           Some parsed \<Rightarrow> if parsed \<noteq> [] then Some parsed else pub_date_str
         | None \<Rightarrow> pub_date_str)
      else pub_date_str)"

text \<open>Method C: newspaper3k metadata.\<close>

definition method_c :: "article option \<Rightarrow> pystr option \<Rightarrow> pystr option" where
  "method_c art pub_date_str =
     (if \<not> truthy pub_date_str then
        (case art of
           None \<Rightarrow> pub_date_str
         | Some a \<Rightarrow>
             (case art_publish_date a of
                None \<Rightarrow> pub_date_str
              | Some (Inr d) \<Rightarrow> Some (strftime_Ymd d)
              | Some (Inl e) \<Rightarrow> pub_date_str))
      else pub_date_str)"

text \<open>
  Method D: \<^verbatim>\<open>re.search(r"/(\d{4})[/-](\d{2})[/-](\d{2})", url)\<close>. \<open>url_date_match\<close> is the
  pattern at the start of \<open>s\<close>, \<open>re_search_url_date\<close> the leftmost match.
\<close>

definition is_sep :: "nat \<Rightarrow> bool" where
  "is_sep c \<longleftrightarrow> c = 47 \<or> c = 45"

definition url_date_match :: "pystr \<Rightarrow> (pystr \<times> pystr \<times> pystr) option" where
  "url_date_match s =
     (if 11 \<le> length s \<and> s ! 0 = 47 \<and>
         list_all uni_isdecimal (take 4 (drop 1 s)) \<and> is_sep (s ! 5) \<and>
         list_all uni_isdecimal (take 2 (drop 6 s)) \<and> is_sep (s ! 8) \<and>
         list_all uni_isdecimal (take 2 (drop 9 s))
      then Some (take 4 (drop 1 s), take 2 (drop 6 s), take 2 (drop 9 s))
      else None)"

fun re_search_url_date :: "pystr \<Rightarrow> (pystr \<times> pystr \<times> pystr) option" where
  "re_search_url_date [] = None"
| "re_search_url_date (c # cs) =
     (case url_date_match (c # cs) of
        Some g \<Rightarrow> Some g
      | None \<Rightarrow> re_search_url_date cs)"

definition method_d :: "pystr \<Rightarrow> pystr option \<Rightarrow> pystr option" where
  "method_d url pub_date_str =
     (let found = re_search_url_date url in
      if \<not> truthy pub_date_str then
        (case found of
           Some (g1, g2, g3) \<Rightarrow> Some (g1 @ [45] @ g2 @ [45] @ g3)
         | None \<Rightarrow> pub_date_str)
      else pub_date_str)"

text \<open>
  The whole function. It returns the dictionary and the texts sent to the translation
  service, or the exception of a call that no \<^verbatim>\<open>try\<close> encloses (\<^verbatim>\<open>BeautifulSoup\<close>,
  \<^verbatim>\<open>tldextract.extract\<close>).
\<close>

definition analyze_news_article :: "world \<Rightarrow> pystr \<Rightarrow> exn + (pydict \<times> pystr list)" where
  "analyze_news_article w url =
     (let html = fetch_html w url in
      case BeautifulSoup w html of
        Inl e \<Rightarrow> Inl e
      | Inr sp \<Rightarrow>
          (case tldextract_domain w url of
             Inl e \<Rightarrow> Inl e
           | Inr extracted_domain \<Rightarrow>
               (let domain = py_lower (unicode_lower w) extracted_domain;
                    media_source =
                      (case map_of MEDIA_MAP domain of
                         Some name \<Rightarrow> name
                       | None \<Rightarrow> py_capitalize (unicode_capitalize w) domain);
                    run = newspaper_article w url;
                    (title, title_calls) = translate_text_if_needed (translate w) (title_step run sp);
                    mal_text = extract_malayalam_text sp;
                    (summary, summary_calls) =
                      (if mal_text \<noteq> [] then translate_text_if_needed (translate w) mal_text
                       else (NO_SUMMARY, []));
                    pub_date_str = method_d url (method_c (article_var run) (method_b sp (method_a w url)));
                    date_str = (if \<not> truthy pub_date_str then NO_DATE else the pub_date_str)
                in Inr ([(''url'', url),
                         (''media_source'', media_source),
                         (''date'', date_str),
                         (''title'', title),
                         (''summary'', summary)],
                        title_calls @ summary_calls))))"

section \<open>The endpoint of api.py\<close>

datatype response = JSONResponse nat pydict | HTTPException nat pystr

text \<open>
  The \<^verbatim>\<open>try\<close> of the endpoint encloses both the call of \<^verbatim>\<open>analyze_news_article\<close> and the
  construction of the response: an exception of either is answered with status 500 and
  its text.
\<close>

definition scrape :: "world \<Rightarrow> pystr \<Rightarrow> response" where
  "scrape w url =
     (case analyze_news_article w url of
        Inl (Exception msg) \<Rightarrow> HTTPException 500 msg
      | Inr (data, calls) \<Rightarrow>
          (case render_json w data of
             Inl (Exception msg) \<Rightarrow> HTTPException 500 msg
           | Inr u \<Rightarrow> JSONResponse 200 data))"

section \<open>Fixed worlds\<close>

text \<open>
  A world in which every library call has one answer, whatever its argument: the page
  fetch, the parse of the page, the registered domain, the structured pass, the date
  inference and the translation service. The dictionary renders, and the case tables
  are the identity (they are consulted for a domain token outside ASCII only). The
  concrete instances of the theorems below are run in such worlds, or in updates of
  them.
\<close>

definition fixed_world ::
    "exn + pystr \<Rightarrow> exn + soup \<Rightarrow> exn + pystr \<Rightarrow> article_run \<Rightarrow> exn + pystr option \<Rightarrow>
     exn + pystr \<Rightarrow> world" where
  "fixed_world page parsed registered run inferred translated =
     \<lparr>requests_get = (\<lambda>u. page), BeautifulSoup = (\<lambda>h. parsed),
      tldextract_domain = (\<lambda>u. registered), newspaper_article = (\<lambda>u. run),
      find_date = (\<lambda>u. inferred), translate = (\<lambda>t. translated),
      unicode_lower = (\<lambda>s. s), unicode_capitalize = (\<lambda>s. s),
      render_json = (\<lambda>data. Inr ())\<rparr>"

definition empty_soup :: soup where
  "empty_soup = \<lparr>soup_title = None, soup_paragraphs = [], soup_text = []\<rparr>"

text \<open>
  No network: every networked call raises, and the empty page parses to nothing. The
  structured pass raises with the article object built and nothing in it.
\<close>

definition blank_article :: article where
  "blank_article = \<lparr>art_title = [], art_publish_date = None\<rparr>"

definition offline_world :: world where
  "offline_world =
     fixed_world (Inl (Exception (py_str ''ConnectionError''))) (Inr empty_soup)
       (Inr (py_str ''example'')) (Raised (Some blank_article))
       (Inl (Exception (py_str ''ConnectionError'')))
       (Inl (Exception (py_str ''ConnectionError'')))"

text \<open>
  The world of a page whose text is \<open>on 7 <Malayalam December> 2024\<close> and that gives no
  other date: the date inference finds nothing and the structured pass has no publish
  date.
\<close>

definition dated_page_world :: world where
  "dated_page_world =
     fixed_world (Inr [])
       (Inr \<lparr>soup_title = None, soup_paragraphs = [],
             soup_text = py_str ''on 7 '' @ [3361, 3391, 3384, 3330, 3372, 3452] @ py_str '' 2024''\<rparr>)
       (Inr (py_str ''example'')) (Completed blank_article) (Inr None) (Inr [])"

text \<open>
  The world of a page with an empty \<^verbatim>\<open><title></title>\<close> whose structured pass raises, and
  the world of a page whose structured pass gives a title of two spaces.
\<close>

definition empty_title_world :: world where
  "empty_title_world =
     fixed_world (Inr [])
       (Inr \<lparr>soup_title = Some [], soup_paragraphs = [], soup_text = []\<rparr>)
       (Inr (py_str ''example'')) (Raised None) (Inr None) (Inr [])"

definition blank_title_world :: world where
  "blank_title_world =
     fixed_world (Inr []) (Inr empty_soup) (Inr (py_str ''example''))
       (Completed \<lparr>art_title = [32, 32], art_publish_date = None\<rparr>) (Inr None) (Inr [])"

text \<open>The first value of a list of optional values that is truthy, as the spec words a cascade.\<close>

fun first_value :: "pystr option list \<Rightarrow> pystr option" where
  "first_value [] = None"
| "first_value (v # vs) = (if truthy v then v else first_value vs)"

fun first_some :: "'a option list \<Rightarrow> 'a option" where
  "first_some [] = None"
| "first_some (None # vs) = first_some vs"
| "first_some (Some v # vs) = Some v"

section \<open>Auxiliary facts\<close>

lemma NO_TITLE_plain: "\<not> re_search_malayalam NO_TITLE"
  by (simp add: NO_TITLE_def re_search_malayalam_def py_str_def is_malayalam_def)

lemma translate_NO_TITLE: "translate_text_if_needed tr NO_TITLE = (NO_TITLE, [])"
  by (simp add: translate_text_if_needed_def NO_TITLE_plain)

lemma analyze_unfold:
  assumes "BeautifulSoup w (fetch_html w url) = Inr sp" and "tldextract_domain w url = Inr tok"
  shows "analyze_news_article w url =
    Inr ([(''url'', url),
          (''media_source'',
            (case map_of MEDIA_MAP (py_lower (unicode_lower w) tok) of Some name \<Rightarrow> name
             | None \<Rightarrow> py_capitalize (unicode_capitalize w) (py_lower (unicode_lower w) tok))),
          (''date'',
            (if \<not> truthy (method_d url (method_c (article_var (newspaper_article w url))
                  (method_b sp (method_a w url))))
             then NO_DATE
             else the (method_d url (method_c (article_var (newspaper_article w url))
                  (method_b sp (method_a w url)))))),
          (''title'',
            fst (translate_text_if_needed (translate w) (title_step (newspaper_article w url) sp))),
          (''summary'',
            fst (if extract_malayalam_text sp \<noteq> []
                 then translate_text_if_needed (translate w) (extract_malayalam_text sp)
                 else (NO_SUMMARY, [])))],
         snd (translate_text_if_needed (translate w) (title_step (newspaper_article w url) sp)) @
         snd (if extract_malayalam_text sp \<noteq> []
              then translate_text_if_needed (translate w) (extract_malayalam_text sp)
              else (NO_SUMMARY, [])))"
  using assms by (simp add: analyze_news_article_def Let_def case_prod_beta)

lemma analyze_returns:
  assumes "analyze_news_article w url = Inr res"
  shows "\<exists>sp tok. BeautifulSoup w (fetch_html w url) = Inr sp \<and> tldextract_domain w url = Inr tok"
  using assms by (auto simp: analyze_news_article_def Let_def split: sum.splits)

lemma collect_malayalam_eq:
  "collect_malayalam ps mal =
     mal @ map (\<lambda>t. py_strip (re_sub_other t)) (filter re_search_malayalam ps)"
  by (induction ps arbitrary: mal) simp_all

lemma extract_malayalam_text_eq:
  "extract_malayalam_text sp =
     py_join [32] (map (\<lambda>t. py_strip (re_sub_other t)) (filter re_search_malayalam (soup_paragraphs sp)))"
  by (simp add: extract_malayalam_text_def collect_malayalam_eq Let_def)

lemma filter_none_malayalam:
  "\<not> list_ex is_malayalam (concat ps) \<Longrightarrow> filter re_search_malayalam ps = []"
  by (induction ps) (simp_all add: re_search_malayalam_def)

lemma analyze_fields:
  assumes "analyze_news_article w url = Inr (d, calls)"
      and "BeautifulSoup w (fetch_html w url) = Inr sp"
      and "tldextract_domain w url = Inr tok"
  shows "map fst d = [''url'', ''media_source'', ''date'', ''title'', ''summary'']"
    and "map_of d ''url'' = Some url"
    and "map_of d ''media_source'' =
           Some (case map_of MEDIA_MAP (py_lower (unicode_lower w) tok) of Some name \<Rightarrow> name
                 | None \<Rightarrow> py_capitalize (unicode_capitalize w) (py_lower (unicode_lower w) tok))"
    and "map_of d ''date'' =
           Some (if \<not> truthy (method_d url (method_c (article_var (newspaper_article w url))
                      (method_b sp (method_a w url))))
                 then NO_DATE
                 else the (method_d url (method_c (article_var (newspaper_article w url))
                      (method_b sp (method_a w url)))))"
    and "map_of d ''title'' =
           Some (fst (translate_text_if_needed (translate w)
                        (title_step (newspaper_article w url) sp)))"
    and "map_of d ''summary'' =
           Some (fst (if extract_malayalam_text sp \<noteq> []
                      then translate_text_if_needed (translate w) (extract_malayalam_text sp)
                      else (NO_SUMMARY, [])))"
    and "calls =
           snd (translate_text_if_needed (translate w) (title_step (newspaper_article w url) sp)) @
           snd (if extract_malayalam_text sp \<noteq> []
                then translate_text_if_needed (translate w) (extract_malayalam_text sp)
                else (NO_SUMMARY, []))"
proof -
  have d: "d = fst (projr (analyze_news_article w url))" and c: "calls = snd (projr (analyze_news_article w url))"
    using assms(1) by simp_all
  show "map fst d = [''url'', ''media_source'', ''date'', ''title'', ''summary'']"
    unfolding d analyze_unfold [OF assms(2,3)] by simp
  show "map_of d ''url'' = Some url"
    unfolding d analyze_unfold [OF assms(2,3)] by simp
  show "map_of d ''media_source'' =
           Some (case map_of MEDIA_MAP (py_lower (unicode_lower w) tok) of Some name \<Rightarrow> name
                 | None \<Rightarrow> py_capitalize (unicode_capitalize w) (py_lower (unicode_lower w) tok))"
    unfolding d analyze_unfold [OF assms(2,3)] by simp
  show "map_of d ''date'' =
           Some (if \<not> truthy (method_d url (method_c (article_var (newspaper_article w url))
                      (method_b sp (method_a w url))))
                 then NO_DATE
                 else the (method_d url (method_c (article_var (newspaper_article w url))
                      (method_b sp (method_a w url)))))"
    unfolding d analyze_unfold [OF assms(2,3)] by simp
  show "map_of d ''title'' =
           Some (fst (translate_text_if_needed (translate w)
                        (title_step (newspaper_article w url) sp)))"
    unfolding d analyze_unfold [OF assms(2,3)] by simp
  show "map_of d ''summary'' =
           Some (fst (if extract_malayalam_text sp \<noteq> []
                      then translate_text_if_needed (translate w) (extract_malayalam_text sp)
                      else (NO_SUMMARY, [])))"
    unfolding d analyze_unfold [OF assms(2,3)] by simp
  show "calls =
           snd (translate_text_if_needed (translate w) (title_step (newspaper_article w url) sp)) @
           snd (if extract_malayalam_text sp \<noteq> []
                then translate_text_if_needed (translate w) (extract_malayalam_text sp)
                else (NO_SUMMARY, []))"
    unfolding c analyze_unfold [OF assms(2,3)] by simp
qed

lemma upper_lower_char: "upper_char (lower_char c) = upper_char c"
  by (simp add: upper_char_def lower_char_def)

lemma lower_lower_char: "lower_char (lower_char c) = lower_char c"
  by (simp add: lower_char_def)

lemma lower_char_ascii: "is_ascii c \<Longrightarrow> is_ascii (lower_char c)"
  by (simp add: is_ascii_def lower_char_def)

lemma py_lower_ascii: "list_all is_ascii s \<Longrightarrow> py_lower tbl s = ascii_lower s"
  by (simp add: py_lower_def)

lemma ascii_lower_ascii: "list_all is_ascii s \<Longrightarrow> list_all is_ascii (ascii_lower s)"
  by (induction s) (simp_all add: ascii_lower_def lower_char_ascii)

lemma ascii_lower_idem: "ascii_lower (ascii_lower s) = ascii_lower s"
  by (induction s) (simp_all add: ascii_lower_def lower_lower_char)

lemma capitalize_lower_ascii:
  assumes "list_all is_ascii s"
  shows "py_capitalize ctbl (py_lower ltbl s) = py_capitalize ctbl s"
proof -
  have "list_all is_ascii (ascii_lower s)"
    using assms by (rule ascii_lower_ascii)
  moreover have "(case ascii_lower s of [] \<Rightarrow> [] | c # cs \<Rightarrow> upper_char c # map lower_char cs) =
                 (case s of [] \<Rightarrow> [] | c # cs \<Rightarrow> upper_char c # map lower_char cs)"
    using ascii_lower_idem [of s]
    by (cases s) (simp_all add: ascii_lower_def upper_lower_char)
  ultimately show ?thesis
    using assms by (simp add: py_lower_ascii py_capitalize_def)
qed

lemma MEDIA_MAP_distinct: "distinct (map fst MEDIA_MAP)"
  by (simp add: MEDIA_MAP_def py_str_def)

lemma MEDIA_MAP_lower: "(k, v) \<in> set MEDIA_MAP \<Longrightarrow> py_lower tbl k = k"
  by (auto simp: MEDIA_MAP_def py_str_def py_lower_def ascii_lower_def lower_char_def
      is_ascii_def)

lemma lower_example:
  "py_lower tbl (py_str ''example'') = py_str ''example''"
  "py_capitalize tbl (py_str ''example'') = py_str ''Example''"
  "map_of MEDIA_MAP (py_str ''example'') = None"
  by (simp_all add: MEDIA_MAP_def py_str_def py_lower_def ascii_lower_def lower_char_def
      py_capitalize_def upper_char_def is_ascii_def)

lemma re_sub_other_kept: "kept_char c \<Longrightarrow> re_sub_other (c # cs) = c # re_sub_other cs"
  by simp

lemma dropWhile_other_stop:
  "cs = [] \<or> kept_char (hd cs) \<Longrightarrow> dropWhile (\<lambda>d. \<not> kept_char d) cs = cs"
  by (cases cs) auto

lemma re_sub_other_run:
  assumes "r \<noteq> []" and "list_all (\<lambda>c. \<not> kept_char c) r" and "cs = [] \<or> kept_char (hd cs)"
  shows "re_sub_other (r @ cs) = 32 # re_sub_other cs"
proof -
  from assms(1) obtain c r' where r: "r = c # r'" by (cases r) auto
  with assms(2) have c: "\<not> kept_char c" and r': "\<forall>x\<in>set r'. \<not> kept_char x"
    by (simp_all add: list_all_iff)
  have "dropWhile (\<lambda>d. \<not> kept_char d) (r' @ cs) = dropWhile (\<lambda>d. \<not> kept_char d) cs"
    using r' by (simp add: dropWhile_append2)
  also have "\<dots> = cs" using assms(3) by (rule dropWhile_other_stop)
  finally show ?thesis using c by (simp add: r)
qed

lemma filter_dropWhile_other:
  "filter is_malayalam (dropWhile (\<lambda>d. \<not> kept_char d) cs) = filter is_malayalam cs"
  by (induction cs) (auto simp: kept_char_def)

lemma space_not_malayalam: "\<not> is_malayalam 32"
  by (simp add: is_malayalam_def)

lemma re_sub_other_malayalam: "filter is_malayalam (re_sub_other t) = filter is_malayalam t"
proof (induction t rule: re_sub_other.induct)
  case 1
  then show ?case by simp
next
  case (2 c cs)
  show ?case
  proof (cases "kept_char c")
    case True
    with 2 show ?thesis by simp
  next
    case False
    then have "\<not> is_malayalam c" by (simp add: kept_char_def)
    with False 2 show ?thesis
      by (simp add: filter_dropWhile_other space_not_malayalam)
  qed
qed

lemma re_sub_other_kept_only: "list_all kept_char (re_sub_other t)"
  by (induction t rule: re_sub_other.induct) (auto simp: kept_char_def)

lemma title_sentinel_translated:
  "fst (translate_text_if_needed tr NO_TITLE) = NO_TITLE"
  by (simp add: translate_NO_TITLE)

lemma strftime_Ymd_nonempty: "strftime_Ymd dt \<noteq> []"
  by (simp add: strftime_Ymd_def year_digits_def)

lemma try_formats_nonempty: "try_formats fixed fmts = Some r \<Longrightarrow> r \<noteq> []"
  by (induction fmts) (auto simp: strftime_Ymd_nonempty split: option.splits)

lemma month_loop_nonempty: "month_loop text months = Some r \<Longrightarrow> r \<noteq> []"
  by (induction months) (auto dest: try_formats_nonempty split: option.splits if_splits)

lemma extract_malayalam_date_nonempty: "extract_malayalam_date text = Some r \<Longrightarrow> r \<noteq> []"
  unfolding extract_malayalam_date_def by (rule month_loop_nonempty)

lemma method_a_wf: "method_a w url = None \<or> truthy (method_a w url)"
  by (auto simp: method_a_def truthy_def split: sum.splits option.splits)

lemma method_b_None: "method_b sp None = extract_malayalam_date (soup_text sp)"
  by (auto simp: method_b_def truthy_def dest: extract_malayalam_date_nonempty split: option.splits)

lemma method_b_pass: "truthy p \<Longrightarrow> method_b sp p = p"
  by (simp add: method_b_def)

lemma method_b_wf: "method_b sp None = None \<or> truthy (method_b sp None)"
  by (auto simp: method_b_None truthy_def dest: extract_malayalam_date_nonempty split: option.splits)

lemma method_c_pass: "truthy p \<Longrightarrow> method_c art p = p"
  by (simp add: method_c_def)

lemma method_c_wf: "method_c art None = None \<or> truthy (method_c art None)"
  by (auto simp: method_c_def truthy_def strftime_Ymd_nonempty split: option.splits sum.splits)

lemma method_d_None:
  "method_d url None = map_option (\<lambda>(y, m, dd). y @ [45] @ m @ [45] @ dd) (re_search_url_date url)"
  by (auto simp: method_d_def truthy_def Let_def split: option.splits)

lemma method_d_pass: "truthy p \<Longrightarrow> method_d url p = p"
  by (simp add: method_d_def Let_def)

lemma method_d_wf: "method_d url None = None \<or> truthy (method_d url None)"
  by (auto simp: method_d_None truthy_def split: option.splits)

lemma cascade_eq:
  "method_d url (method_c art (method_b sp (method_a w url))) =
     first_value [method_a w url, method_b sp None, method_c art None, method_d url None]"
proof (cases "truthy (method_a w url)")
  case True
  then show ?thesis
    by (simp add: method_b_pass method_c_pass method_d_pass)
next
  case a: False
  with method_a_wf [of w url] have a0: "method_a w url = None" by blast
  show ?thesis
  proof (cases "truthy (method_b sp None)")
    case True
    then show ?thesis
      using a by (simp add: a0 method_c_pass method_d_pass)
  next
    case b: False
    with method_b_wf [of sp] have b0: "method_b sp None = None" by blast
    show ?thesis
    proof (cases "truthy (method_c art None)")
      case True
      then show ?thesis
        using a b by (simp add: a0 b0 method_d_pass)
    next
      case c: False
      with method_c_wf [of art] have c0: "method_c art None = None" by blast
      show ?thesis
        using method_d_wf [of url] by (auto simp: a0 b0 c0 truthy_def)
    qed
  qed
qed

lemma date_field_cascade:
  "(if \<not> truthy (method_d url (method_c art (method_b sp (method_a w url)))) then NO_DATE
    else the (method_d url (method_c art (method_b sp (method_a w url))))) =
   (case first_value [method_a w url, method_b sp None, method_c art None, method_d url None] of
      Some v \<Rightarrow> v | None \<Rightarrow> NO_DATE)"
proof -
  have "first_value vs = None \<or> truthy (first_value vs)" for vs
    by (induction vs) auto
  from this [of "[method_a w url, method_b sp None, method_c art None, method_d url None]"]
  show ?thesis
    unfolding cascade_eq by (auto simp: truthy_def split: option.splits)
qed

lemma url_date_match_at:
  assumes "length y = 4" "length m = 2" "length dd = 2"
      and "list_all uni_isdecimal (y @ m @ dd)" "is_sep s1" "is_sep s2"
  shows "url_date_match ([47] @ y @ [s1] @ m @ [s2] @ dd @ post) = Some (y, m, dd)"
  using assms by (simp add: url_date_match_def nth_append)

lemma re_search_hit: "url_date_match s = Some g \<Longrightarrow> re_search_url_date s = Some g"
  by (cases s) (simp_all add: url_date_match_def)

lemma re_search_leftmost:
  "\<forall>i<length pre. url_date_match (drop i (pre @ s)) = None \<Longrightarrow>
   re_search_url_date (pre @ s) = re_search_url_date s"
proof (induction pre)
  case Nil
  then show ?case by simp
next
  case (Cons c pre)
  from Cons.prems have 0: "url_date_match (c # pre @ s) = None"
    by (auto dest: spec [of _ 0])
  have "\<forall>i<length pre. url_date_match (drop i (pre @ s)) = None"
  proof (intro allI impI)
    fix i assume "i < length pre"
    then have "Suc i < length (c # pre)" by simp
    with Cons.prems have "url_date_match (drop (Suc i) ((c # pre) @ s)) = None" by blast
    then show "url_date_match (drop i (pre @ s)) = None" by simp
  qed
  with Cons.IH 0 show ?case by simp
qed

lemma analyze_total:
  assumes "BeautifulSoup w (fetch_html w url) = Inr sp" and "tldextract_domain w url = Inr tok"
  shows "\<exists>d calls. analyze_news_article w url = Inr (d, calls)"
  using analyze_unfold [OF assms] by blast

lemma fixed_world_calls:
  "BeautifulSoup (fixed_world page parsed registered run inferred translated) h = parsed"
  "tldextract_domain (fixed_world page parsed registered run inferred translated) u = registered"
  "newspaper_article (fixed_world page parsed registered run inferred translated) u = run"
  "find_date (fixed_world page parsed registered run inferred translated) u = inferred"
  "translate (fixed_world page parsed registered run inferred translated) = (\<lambda>t. translated)"
  "requests_get (fixed_world page parsed registered run inferred translated) u = page"
  by (simp_all add: fixed_world_def)

lemma extract_date_empty: "extract_malayalam_date [] = None"
  by (simp add: extract_malayalam_date_def MALAYALAM_MONTHS_def)

lemma all_less_list_all: "(\<forall>i<n. P i) \<longleftrightarrow> list_all P [0..<n]"
  by (auto simp: list_all_iff)

lemma offline_calls:
  "BeautifulSoup offline_world h = Inr empty_soup"
  "tldextract_domain offline_world u = Inr (py_str ''example'')"
  "newspaper_article offline_world u = Raised (Some blank_article)"
  "find_date offline_world u = Inl (Exception (py_str ''ConnectionError''))"
  by (simp_all add: offline_world_def fixed_world_calls)

lemma offline_title: "title_step (Raised ao) empty_soup = NO_TITLE"
  by (simp add: title_step_def empty_soup_def)

lemma offline_text: "extract_malayalam_text empty_soup = []"
  by (simp add: extract_malayalam_text_def empty_soup_def)

lemma offline_tiers:
  "method_a offline_world u = None"
  "extract_malayalam_date (soup_text empty_soup) = None"
  "method_c (article_var (Raised (Some blank_article))) None = None"
  by (simp_all add: method_a_def offline_calls empty_soup_def extract_date_empty method_c_def
      article_var_def truthy_def blank_article_def)

lemma ascii_isdecimal: "c < 128 \<Longrightarrow> uni_isdecimal c \<longleftrightarrow> 48 \<le> c \<and> c \<le> 57"
  by (simp add: uni_isdecimal_def uni_decimal_def decimal_zeros_def)

lemma url_date_match_other: "c \<noteq> 47 \<Longrightarrow> url_date_match (c # cs) = None"
  by (simp add: url_date_match_def)

lemma url_date_match_nondigit: "\<not> uni_isdecimal c \<Longrightarrow> url_date_match (a # c # cs) = None"
  by (simp add: url_date_match_def)

lemma url_date_match_short: "length s < 11 \<Longrightarrow> url_date_match s = None"
  by (simp add: url_date_match_def)

lemmas url_date_eval =
  url_date_match_other url_date_match_nondigit url_date_match_short ascii_isdecimal

lemma no_url_date: "re_search_url_date (py_str ''https://example.com/news'') = None"
  by (simp add: py_str_def url_date_eval)

lemma offline_analyze:
  "analyze_news_article offline_world (py_str ''https://example.com/news'') =
     Inr ([(''url'', py_str ''https://example.com/news''),
           (''media_source'', py_str ''Example''),
           (''date'', NO_DATE),
           (''title'', NO_TITLE),
           (''summary'', NO_SUMMARY)], [])"
proof -
  have dt: "method_d (py_str ''https://example.com/news'')
              (method_c (article_var (Raised (Some blank_article))) (method_b empty_soup None))
            = None"
    by (simp add: method_b_None offline_tiers method_d_None no_url_date)
  show ?thesis
    unfolding analyze_unfold [OF offline_calls(1,2)] offline_calls offline_tiers lower_example
      offline_title offline_text translate_NO_TITLE dt
    by (simp add: truthy_def)
qed

lemma url_date_match_hit:
  assumes "list_all uni_isdecimal [y1, y2, y3, y4, m1, m2, d1, d2]" and "is_sep s1" and "is_sep s2"
  shows "url_date_match (47 # y1 # y2 # y3 # y4 # s1 # m1 # m2 # s2 # d1 # d2 # rest) =
           Some ([y1, y2, y3, y4], [m1, m2], [d1, d2])"
  using assms by (simp add: url_date_match_def)

lemma url_2024_12_07:
  "re_search_url_date (py_str ''https://example.com/2024/12/07/story'') =
     Some (py_str ''2024'', py_str ''12'', py_str ''07'')"
  by (simp add: py_str_def url_date_eval url_date_match_hit is_sep_def)

lemma first_some_append:
  "first_some (xs @ ys) = (case first_some xs of Some v \<Rightarrow> Some v | None \<Rightarrow> first_some ys)"
  by (induction xs rule: first_some.induct) simp_all

lemma try_formats_eq:
  "try_formats fixed fmts =
     first_some (map (\<lambda>fmt. map_option strftime_Ymd (strptime fixed fmt)) fmts)"
  by (induction fmts) (simp_all split: option.splits)

lemma month_loop_eq:
  "month_loop text months =
     first_some (concat (map (\<lambda>(ml, eng).
        if py_in ml text
        then map (\<lambda>fmt. map_option strftime_Ymd (strptime (py_replace text ml eng) fmt)) FORMATS
        else []) months))"
proof (induction months)
  case Nil
  then show ?case by simp
next
  case (Cons p months)
  obtain ml eng where p: "p = (ml, eng)" by (cases p)
  show ?case
  proof (cases "py_in ml text")
    case True
    with Cons.IH show ?thesis
      by (simp add: p first_some_append try_formats_eq split: option.splits)
  next
    case False
    with Cons.IH show ?thesis by (simp add: p)
  qed
qed

lemma compile_formats:
  "compile_format (py_str ''%d %B %Y'') = Some [Day, Spaces, MonthName, Spaces, Year4]"
  "compile_format (py_str ''%d-%B-%Y'') = Some [Day, Lit 45, MonthName, Lit 45, Year4]"
  "compile_format (py_str ''%d %B, %Y'') = Some [Day, Spaces, MonthName, Lit 44, Spaces, Year4]"
  by (simp_all add: py_str_def py_isspace_def)

lemma day_alts_none:
  "s = [] \<or> (hd s \<noteq> 32 \<and> \<not> (48 \<le> hd s \<and> hd s \<le> 57)) \<Longrightarrow> day_alts s = []"
  by (auto simp: day_alts_def split: list.splits)

lemma strptime_needs_day:
  "day_alts s = [] \<Longrightarrow> fmt \<in> set FORMATS \<Longrightarrow> strptime s fmt = None"
  by (auto simp: FORMATS_def strptime_def compile_formats)

lemma try_formats_needs_day: "day_alts s = [] \<Longrightarrow> try_formats s FORMATS = None"
  by (simp add: try_formats_eq FORMATS_def strptime_def compile_formats)

lemma hd_py_replace:
  assumes "text \<noteq> []" and "old \<noteq> []" and "new \<noteq> []"
  shows "py_replace text old new \<noteq> [] \<and>
         (hd (py_replace text old new) = hd text \<or> hd (py_replace text old new) = hd new)"
  using assms by (cases "text") auto

lemma months_start_with_letter:
  "(ml, eng) \<in> set MALAYALAM_MONTHS \<Longrightarrow>
     ml \<noteq> [] \<and> eng \<noteq> [] \<and> hd eng \<noteq> 32 \<and> \<not> (48 \<le> hd eng \<and> hd eng \<le> 57)"
  by (auto simp: MALAYALAM_MONTHS_def py_str_def)

lemma month_loop_needs_day:
  assumes "text \<noteq> []" and "hd text \<noteq> 32" and "\<not> (48 \<le> hd text \<and> hd text \<le> 57)"
      and "set months \<subseteq> set MALAYALAM_MONTHS"
  shows "month_loop text months = None"
  using assms(4)
proof (induction months)
  case Nil
  then show ?case by simp
next
  case (Cons p months)
  obtain ml eng where p: "p = (ml, eng)" by (cases p)
  with Cons.prems have "(ml, eng) \<in> set MALAYALAM_MONTHS" by simp
  from months_start_with_letter [OF this] hd_py_replace [OF assms(1), of ml eng] assms(2,3)
  have "day_alts (py_replace text ml eng) = []"
    by (intro day_alts_none) auto
  then have "try_formats (py_replace text ml eng) FORMATS = None"
    by (rule try_formats_needs_day)
  with Cons p show ?case by simp
qed

lemmas strptime_eval =
  strptime_def compile_formats day_alts_def month_alts_def spaces_alts_def year_alts_def
  lit_alts_def month_alternation_def month_names_def ascii_lower_def lower_char_def
  ascii_isdecimal uni_decimal_def decimal_zeros_def py_int_def py_strip_def py_isspace_def
  valid_date_def days_in_month_def is_leap_def strftime_Ymd_def year_digits_def digit_char_def

lemma december_2024:
  "extract_malayalam_date (py_str ''7 '' @ [3361, 3391, 3384, 3330, 3372, 3452] @ py_str '' 2024'')
     = Some (py_str ''2024-12-07'')"
  unfolding extract_malayalam_date_def MALAYALAM_MONTHS_def
  by (simp add: py_str_def) (simp add: FORMATS_def py_str_def strptime_eval)

lemma december_2024_leading:
  "extract_malayalam_date
     (py_str ''on 7 '' @ [3361, 3391, 3384, 3330, 3372, 3452] @ py_str '' 2024'') = None"
  unfolding extract_malayalam_date_def MALAYALAM_MONTHS_def
  by (simp add: py_str_def) (simp add: FORMATS_def py_str_def strptime_eval)

lemma december_2024_trailing:
  "extract_malayalam_date
     (py_str ''7 '' @ [3361, 3391, 3384, 3330, 3372, 3452] @ py_str '' 2024.'') = None"
  unfolding extract_malayalam_date_def MALAYALAM_MONTHS_def
  by (simp add: py_str_def) (simp add: FORMATS_def py_str_def strptime_eval)

lemma method_c_None:
  "method_c art None =
     (case art of
        None \<Rightarrow> None
      | Some a \<Rightarrow>
          (case art_publish_date a of
             None \<Rightarrow> None
           | Some (Inl e) \<Rightarrow> None
           | Some (Inr dt) \<Rightarrow> Some (strftime_Ymd dt)))"
  by (simp add: method_c_def truthy_def split: option.splits sum.splits)

lemma translate_fallback:
  "service t = Inl e \<Longrightarrow> fst (translate_text_if_needed service t) = t"
  by (simp add: translate_text_if_needed_def)

lemma cascade_without_a:
  "method_a w url = None \<Longrightarrow>
   first_value [method_a w url, b, c, dd] = first_value [b, c, dd]"
  by (simp add: truthy_def)

lemma cascade_without_c:
  "c = None \<Longrightarrow> first_value [a, b, c, dd] = first_value [a, b, dd]"
  by (simp add: truthy_def)

lemma dated_page_calls:
  "BeautifulSoup dated_page_world h =
     Inr \<lparr>soup_title = None, soup_paragraphs = [],
           soup_text = py_str ''on 7 '' @ [3361, 3391, 3384, 3330, 3372, 3452] @ py_str '' 2024''\<rparr>"
  "tldextract_domain dated_page_world u = Inr (py_str ''example'')"
  "newspaper_article dated_page_world u = Completed blank_article"
  "find_date dated_page_world u = Inr None"
  by (simp_all add: dated_page_world_def fixed_world_calls)

lemma empty_title_calls:
  "BeautifulSoup empty_title_world h =
     Inr \<lparr>soup_title = Some [], soup_paragraphs = [], soup_text = []\<rparr>"
  "tldextract_domain empty_title_world u = Inr (py_str ''example'')"
  "newspaper_article empty_title_world u = Raised None"
  "find_date empty_title_world u = Inr None"
  by (simp_all add: empty_title_world_def fixed_world_calls)

lemma blank_title_calls:
  "BeautifulSoup blank_title_world h = Inr empty_soup"
  "tldextract_domain blank_title_world u = Inr (py_str ''example'')"
  "newspaper_article blank_title_world u =
     Completed \<lparr>art_title = [32, 32], art_publish_date = None\<rparr>"
  "find_date blank_title_world u = Inr None"
  by (simp_all add: blank_title_world_def fixed_world_calls)

section \<open>The claims\<close>

text \<open>
  C1. The date cascade keeps its order. The date of the returned record is the first
  value among tier (a) generic date inference, tier (b) the Malayalam date scan of the
  page text, tier (c) the publish date of the structured pass and tier (d) the URL
  pattern, each run on its own, and \<open>Date Not Found\<close> when none has a value: a tier counts
  only when every earlier tier produced no value. Tier by tier: a non-empty result of
  the date inference is the date, whatever the other tiers hold; without it, a date
  found by the Malayalam scan is the date; without both, a publish date of the article
  object is the date, formatted, even when the URL holds a date; without the three, the
  date is the three digit groups of the URL match joined by hyphens (\<open>2024-12-07\<close> for a
  URL holding \<open>/2024/12/07/\<close>); and without any it is \<open>Date Not Found\<close>.
\<close>

theorem date_cascade_order:
  assumes "analyze_news_article w url = Inr (d, calls)"
      and "BeautifulSoup w (fetch_html w url) = Inr sp"
  shows
    "map_of d ''date'' =
       Some (case first_value
                    [method_a w url, method_b sp None,
                     method_c (article_var (newspaper_article w url)) None, method_d url None] of
               Some v \<Rightarrow> v
             | None \<Rightarrow> NO_DATE) \<and>
     method_b sp None = extract_malayalam_date (soup_text sp) \<and>
     method_c art None =
       (case art of
          None \<Rightarrow> None
        | Some a \<Rightarrow>
            (case art_publish_date a of
               None \<Rightarrow> None
             | Some (Inl e) \<Rightarrow> None
             | Some (Inr dt) \<Rightarrow> Some (strftime_Ymd dt))) \<and>
     method_d url None =
       map_option (\<lambda>(y, m, dd). y @ [45] @ m @ [45] @ dd) (re_search_url_date url) \<and>
     (\<forall>found. find_date w url = Inr (Some found) \<and> found \<noteq> [] \<longrightarrow>
        map_of d ''date'' = Some found) \<and>
     (\<forall>parsed. method_a w url = None \<and> extract_malayalam_date (soup_text sp) = Some parsed \<longrightarrow>
        map_of d ''date'' = Some parsed) \<and>
     (\<forall>a dt. method_a w url = None \<and> extract_malayalam_date (soup_text sp) = None \<and>
        article_var (newspaper_article w url) = Some a \<and> art_publish_date a = Some (Inr dt) \<longrightarrow>
        map_of d ''date'' = Some (strftime_Ymd dt)) \<and>
     (\<forall>y m dd. method_a w url = None \<and> extract_malayalam_date (soup_text sp) = None \<and>
        method_c (article_var (newspaper_article w url)) None = None \<and>
        re_search_url_date url = Some (y, m, dd) \<longrightarrow>
        map_of d ''date'' = Some (y @ [45] @ m @ [45] @ dd)) \<and>
     (method_a w url = None \<and> extract_malayalam_date (soup_text sp) = None \<and>
        method_c (article_var (newspaper_article w url)) None = None \<and>
        re_search_url_date url = None \<longrightarrow>
        map_of d ''date'' = Some NO_DATE)"
proof -
  from analyze_returns [OF assms(1)] obtain tok where
    tok: "tldextract_domain w url = Inr tok" by auto
  have dt: "map_of d ''date'' =
       Some (case first_value
                    [method_a w url, method_b sp None,
                     method_c (article_var (newspaper_article w url)) None, method_d url None] of
               Some v \<Rightarrow> v
             | None \<Rightarrow> NO_DATE)"
    using analyze_fields(4) [OF assms tok] unfolding date_field_cascade .
  have wins: "map_of d ''date'' = Some found"
    if "find_date w url = Inr (Some found)" "found \<noteq> []" for found
    using dt that by (simp add: method_a_def truthy_def)
  have second: "map_of d ''date'' = Some parsed"
    if "method_a w url = None" "extract_malayalam_date (soup_text sp) = Some parsed" for parsed
    using dt that extract_malayalam_date_nonempty [OF that(2)]
    by (simp add: method_b_None truthy_def)
  have third: "map_of d ''date'' = Some (strftime_Ymd dt)"
    if "method_a w url = None" "extract_malayalam_date (soup_text sp) = None"
      "article_var (newspaper_article w url) = Some a" "art_publish_date a = Some (Inr dt)"
    for a dt
    using dt that by (simp add: method_b_None method_c_None truthy_def strftime_Ymd_nonempty)
  have last: "map_of d ''date'' = Some (y @ [45] @ m @ [45] @ dd)"
    if "method_a w url = None" "extract_malayalam_date (soup_text sp) = None"
      "method_c (article_var (newspaper_article w url)) None = None"
      "re_search_url_date url = Some (y, m, dd)" for y m dd
    using dt that by (simp add: method_b_None method_d_None truthy_def)
  have none: "map_of d ''date'' = Some NO_DATE"
    if "method_a w url = None" "extract_malayalam_date (soup_text sp) = None"
      "method_c (article_var (newspaper_article w url)) None = None"
      "re_search_url_date url = None"
    using dt that by (simp add: method_b_None method_d_None truthy_def)
  from dt wins second third last none show ?thesis
    by (simp add: method_b_None method_d_None method_c_None)
qed

theorem date_cascade_order_witness:
  "(\<exists>d calls.
      analyze_news_article
        (fixed_world (Inr []) (Inr empty_soup) (Inr (py_str ''example'')) (Raised None)
           (Inr (Some (py_str ''2023-01-15''))) (Inr []))
        (py_str ''https://example.com/2024/12/07/story'') = Inr (d, calls) \<and>
      map_of d ''date'' = Some (py_str ''2023-01-15'')) \<and>
   (\<exists>d calls.
      analyze_news_article
        (fixed_world (Inr [])
           (Inr \<lparr>soup_title = None, soup_paragraphs = [],
                 soup_text = py_str ''7 '' @ [3361, 3391, 3384, 3330, 3372, 3452] @ py_str '' 2024''\<rparr>)
           (Inr (py_str ''example''))
           (Completed \<lparr>art_title = [], art_publish_date = Some (Inr (Date 2022 3 5))\<rparr>)
           (Inr None) (Inr []))
        (py_str ''https://example.com/2021/01/02/story'') = Inr (d, calls) \<and>
      map_of d ''date'' = Some (py_str ''2024-12-07'')) \<and>
   (\<exists>d calls.
      analyze_news_article
        (fixed_world (Inr []) (Inr empty_soup) (Inr (py_str ''example''))
           (Completed \<lparr>art_title = [], art_publish_date = Some (Inr (Date 2022 3 5))\<rparr>)
           (Inr None) (Inr []))
        (py_str ''https://example.com/2024/12/07/story'') = Inr (d, calls) \<and>
      map_of d ''date'' = Some (py_str ''2022-03-05'')) \<and>
   (\<exists>d calls.
      analyze_news_article offline_world (py_str ''https://example.com/2024/12/07/story'')
        = Inr (d, calls) \<and>
      map_of d ''date'' = Some (py_str ''2024-12-07'')) \<and>
   (\<exists>d calls.
      analyze_news_article offline_world (py_str ''https://example.com/news'') = Inr (d, calls) \<and>
      map_of d ''date'' = Some (py_str ''Date Not Found''))"
proof -
  let ?u = "py_str ''https://example.com/2024/12/07/story''"
  let ?n = "py_str ''https://example.com/news''"
  let ?wa = "fixed_world (Inr []) (Inr empty_soup) (Inr (py_str ''example'')) (Raised None)
           (Inr (Some (py_str ''2023-01-15''))) (Inr [])"
  obtain da ca where aa: "analyze_news_article ?wa ?u = Inr (da, ca)"
    using analyze_total [of ?wa ?u empty_soup "py_str ''example''"]
    by (auto simp: fixed_world_calls)
  have pa: "BeautifulSoup ?wa (fetch_html ?wa ?u) = Inr empty_soup"
    by (simp add: fixed_world_calls)
  have ha: "find_date ?wa ?u = Inr (Some (py_str ''2023-01-15'')) \<and> py_str ''2023-01-15'' \<noteq> []"
    by (simp add: fixed_world_calls py_str_def)
  have ma: "map_of da ''date'' = Some (py_str ''2023-01-15'')"
    by (rule date_cascade_order [OF aa pa, THEN conjunct2, THEN conjunct2, THEN conjunct2,
          THEN conjunct2, THEN conjunct1, rule_format, OF ha])
  let ?art = "\<lparr>art_title = [], art_publish_date = Some (Inr (Date 2022 3 5))\<rparr>"
  let ?spb = "\<lparr>soup_title = None, soup_paragraphs = [],
               soup_text = py_str ''7 '' @ [3361, 3391, 3384, 3330, 3372, 3452] @ py_str '' 2024''\<rparr>"
  let ?wb = "fixed_world (Inr []) (Inr ?spb) (Inr (py_str ''example'')) (Completed ?art)
           (Inr None) (Inr [])"
  let ?ub = "py_str ''https://example.com/2021/01/02/story''"
  obtain db cb where ab: "analyze_news_article ?wb ?ub = Inr (db, cb)"
    using analyze_total [of ?wb ?ub ?spb "py_str ''example''"]
    by (auto simp: fixed_world_calls)
  have pb: "BeautifulSoup ?wb (fetch_html ?wb ?ub) = Inr ?spb"
    by (simp add: fixed_world_calls)
  have hb: "method_a ?wb ?ub = None \<and>
            extract_malayalam_date (soup_text ?spb) = Some (py_str ''2024-12-07'')"
    using december_2024 by (simp add: method_a_def fixed_world_calls)
  have mb: "map_of db ''date'' = Some (py_str ''2024-12-07'')"
    by (rule date_cascade_order [OF ab pb, THEN conjunct2, THEN conjunct2, THEN conjunct2,
          THEN conjunct2, THEN conjunct2, THEN conjunct1, rule_format, OF hb])
  let ?wc = "fixed_world (Inr []) (Inr empty_soup) (Inr (py_str ''example'')) (Completed ?art)
           (Inr None) (Inr [])"
  obtain dc cc where ac: "analyze_news_article ?wc ?u = Inr (dc, cc)"
    using analyze_total [of ?wc ?u empty_soup "py_str ''example''"]
    by (auto simp: fixed_world_calls)
  have pc: "BeautifulSoup ?wc (fetch_html ?wc ?u) = Inr empty_soup"
    by (simp add: fixed_world_calls)
  have hc: "method_a ?wc ?u = None \<and> extract_malayalam_date (soup_text empty_soup) = None \<and>
            article_var (newspaper_article ?wc ?u) = Some ?art \<and>
            art_publish_date ?art = Some (Inr (Date 2022 3 5))"
    by (simp add: method_a_def fixed_world_calls offline_tiers article_var_def)
  have "map_of dc ''date'' = Some (strftime_Ymd (Date 2022 3 5))"
    by (rule date_cascade_order [OF ac pc, THEN conjunct2, THEN conjunct2, THEN conjunct2,
          THEN conjunct2, THEN conjunct2, THEN conjunct2, THEN conjunct1, rule_format, OF hc])
  then have mc: "map_of dc ''date'' = Some (py_str ''2022-03-05'')"
    by (simp add: strftime_Ymd_def year_digits_def digit_char_def py_str_def)
  obtain dd cd where ad: "analyze_news_article offline_world ?u = Inr (dd, cd)"
    using analyze_total [of offline_world ?u empty_soup "py_str ''example''"]
    by (auto simp: offline_calls)
  have hd: "method_a offline_world ?u = None \<and>
            extract_malayalam_date (soup_text empty_soup) = None \<and>
            method_c (article_var (newspaper_article offline_world ?u)) None = None \<and>
            re_search_url_date ?u = Some (py_str ''2024'', py_str ''12'', py_str ''07'')"
    by (simp add: offline_tiers offline_calls url_2024_12_07)
  have "map_of dd ''date'' = Some (py_str ''2024'' @ [45] @ py_str ''12'' @ [45] @ py_str ''07'')"
    by (rule date_cascade_order [OF ad offline_calls(1), THEN conjunct2, THEN conjunct2,
          THEN conjunct2, THEN conjunct2, THEN conjunct2, THEN conjunct2, THEN conjunct2,
          THEN conjunct1, rule_format, OF hd])
  then have md: "map_of dd ''date'' = Some (py_str ''2024-12-07'')"
    by (simp add: py_str_def)
  obtain de ce where ae: "analyze_news_article offline_world ?n = Inr (de, ce)"
    using analyze_total [of offline_world ?n empty_soup "py_str ''example''"]
    by (auto simp: offline_calls)
  have he: "method_a offline_world ?n = None \<and>
            extract_malayalam_date (soup_text empty_soup) = None \<and>
            method_c (article_var (newspaper_article offline_world ?n)) None = None \<and>
            re_search_url_date ?n = None"
    by (simp add: offline_tiers offline_calls no_url_date)
  have "map_of de ''date'' = Some NO_DATE"
    by (rule date_cascade_order [OF ae offline_calls(1), THEN conjunct2, THEN conjunct2,
          THEN conjunct2, THEN conjunct2, THEN conjunct2, THEN conjunct2, THEN conjunct2,
          THEN conjunct2, rule_format, OF he])
  then have me: "map_of de ''date'' = Some (py_str ''Date Not Found'')"
    by (simp add: NO_DATE_def)
  from aa ma ab mb ac mc ad md ae me show ?thesis by simp
qed

text \<open>
  C2, at the code. The text \<open>7 <Malayalam December> 2024\<close> on its own yields
  \<open>2024-12-07\<close>. The same date inside a longer text is not found, because the replaced
  text is parsed as a whole: \<open>on 7 <Malayalam December> 2024\<close> contains the date and
  yields nothing, and so does the date followed by a full stop. A page whose text is
  \<open>on 7 <Malayalam December> 2024\<close>, with no other source of a date, is returned with
  \<open>Date Not Found\<close>.
\<close>

theorem malayalam_date_inside_text:
  "extract_malayalam_date
     (py_str ''7 '' @ [3361, 3391, 3384, 3330, 3372, 3452] @ py_str '' 2024'')
     = Some (py_str ''2024-12-07'') \<and>
   py_in (py_str ''7 '' @ [3361, 3391, 3384, 3330, 3372, 3452] @ py_str '' 2024'')
     (py_str ''on 7 '' @ [3361, 3391, 3384, 3330, 3372, 3452] @ py_str '' 2024'') \<and>
   extract_malayalam_date
     (py_str ''on 7 '' @ [3361, 3391, 3384, 3330, 3372, 3452] @ py_str '' 2024'') = None \<and>
   extract_malayalam_date
     (py_str ''7 '' @ [3361, 3391, 3384, 3330, 3372, 3452] @ py_str '' 2024.'') = None \<and>
   analyze_news_article dated_page_world (py_str ''https://example.com/news'') =
     Inr ([(''url'', py_str ''https://example.com/news''),
           (''media_source'', py_str ''Example''),
           (''date'', py_str ''Date Not Found''),
           (''title'', py_str ''No Title Found''),
           (''summary'', py_str ''No readable Malayalam content found.'')], [])"
proof -
  let ?sp = "\<lparr>soup_title = None, soup_paragraphs = [],
           soup_text = py_str ''on 7 '' @ [3361, 3391, 3384, 3330, 3372, 3452] @ py_str '' 2024''\<rparr>"
  let ?u = "py_str ''https://example.com/news''"
  have sub: "py_in (py_str ''7 '' @ [3361, 3391, 3384, 3330, 3372, 3452] @ py_str '' 2024'')
     (py_str ''on 7 '' @ [3361, 3391, 3384, 3330, 3372, 3452] @ py_str '' 2024'')"
    by (simp add: py_str_def)
  have b: "method_b ?sp None = None"
    using december_2024_leading by (simp add: method_b_None)
  have dt: "method_d ?u (method_c (article_var (Completed blank_article))
              (method_b ?sp (method_a dated_page_world ?u))) = None"
    using b
    by (simp add: method_a_def dated_page_calls method_c_None article_var_def blank_article_def
        method_d_None no_url_date)
  have ti: "title_step (Completed blank_article) ?sp = NO_TITLE"
    by (simp add: title_step_def blank_article_def)
  have tx: "extract_malayalam_text ?sp = []"
    by (simp add: extract_malayalam_text_def)
  have "analyze_news_article dated_page_world ?u =
     Inr ([(''url'', ?u), (''media_source'', py_str ''Example''), (''date'', NO_DATE),
           (''title'', NO_TITLE), (''summary'', NO_SUMMARY)], [])"
    unfolding analyze_unfold [OF dated_page_calls(1,2)] dated_page_calls lower_example ti tx
      translate_NO_TITLE dt
    by (simp add: truthy_def)
  with december_2024 sub december_2024_leading december_2024_trailing show ?thesis
    by (simp add: NO_DATE_def NO_TITLE_def NO_SUMMARY_def)
qed

text \<open>
  C3, as the code has it. The body text is the join, with single spaces, of the
  paragraphs that hold at least one character of the Malayalam block, each cleaned and
  then stripped. Cleaning keeps every space and every Malayalam character where it is
  and puts one space in place of every maximal run of other characters (the run is not
  deleted): the Malayalam characters of a paragraph survive in their order, and nothing
  but spaces and Malayalam characters is left.
\<close>

theorem malayalam_text_extraction:
  "extract_malayalam_text sp =
     py_join [32] (map (\<lambda>t. py_strip (re_sub_other t))
                     (filter re_search_malayalam (soup_paragraphs sp))) \<and>
   (kept_char c \<longrightarrow> re_sub_other (c # cs) = c # re_sub_other cs) \<and>
   (r \<noteq> [] \<and> list_all (\<lambda>c. \<not> kept_char c) r \<and> (rest = [] \<or> kept_char (hd rest)) \<longrightarrow>
      re_sub_other (r @ rest) = 32 # re_sub_other rest) \<and>
   filter is_malayalam (re_sub_other t) = filter is_malayalam t \<and>
   list_all kept_char (re_sub_other t)"
  using extract_malayalam_text_eq [of sp] re_sub_other_kept [of c cs]
    re_sub_other_run [of r rest] re_sub_other_malayalam [of t] re_sub_other_kept_only [of t]
  by blast

theorem malayalam_text_extraction_witness:
  "extract_malayalam_text
     \<lparr>soup_title = None,
      soup_paragraphs = [py_str ''plain text'', [3333, 44, 49, 3334, 32], [3335]],
      soup_text = []\<rparr> = [3333, 32, 3334, 32, 3335] \<and>
   re_sub_other ([44, 49] @ [3334, 32]) = 32 # re_sub_other [3334, 32] \<and>
   re_sub_other (3333 # [44, 49, 3334]) = 3333 # re_sub_other [44, 49, 3334]"
proof -
  have k: "kept_char 3333" by (simp add: kept_char_def is_malayalam_def)
  have r: "[44, 49] \<noteq> ([] :: pystr) \<and> list_all (\<lambda>c. \<not> kept_char c) [44, 49] \<and>
           ([3334, 32] = ([] :: pystr) \<or> kept_char (hd [3334, 32]))"
    by (simp add: kept_char_def is_malayalam_def)
  show ?thesis
    using k r
      malayalam_text_extraction [where
        sp = "\<lparr>soup_title = None,
          soup_paragraphs = [py_str ''plain text'', [3333, 44, 49, 3334, 32], [3335]],
          soup_text = []\<rparr>" and c = 3333 and cs = "[44, 49, 3334]" and r = "[44, 49]"
        and rest = "[3334, 32]" and t = "[]"]
    by (simp add: re_search_malayalam_def is_malayalam_def py_str_def kept_char_def
        py_strip_def py_isspace_def)
qed

theorem malayalam_text_extraction_counterexample:
  "extract_malayalam_text
     \<lparr>soup_title = None, soup_paragraphs = [[3333, 120, 3334]], soup_text = []\<rparr>
     = [3333, 32, 3334] \<and>
   py_strip (filter kept_char [3333, 120, 3334]) = [3333, 3334]"
  by (simp add: extract_malayalam_text_def re_search_malayalam_def is_malayalam_def
      kept_char_def py_strip_def py_isspace_def)

text \<open>
  C4, at the code. When the structured pass raises and the page has an empty
  \<^verbatim>\<open><title></title>\<close>, neither source yields text, and the title of the returned
  record is the empty string, not \<open>No Title Found\<close>. It is the empty string as well when
  the structured pass gives a title of spaces only.
\<close>

theorem title_blank_instead_of_sentinel:
  "analyze_news_article empty_title_world (py_str ''https://example.com/news'') =
     Inr ([(''url'', py_str ''https://example.com/news''),
           (''media_source'', py_str ''Example''),
           (''date'', py_str ''Date Not Found''),
           (''title'', []),
           (''summary'', py_str ''No readable Malayalam content found.'')], []) \<and>
   analyze_news_article blank_title_world (py_str ''https://example.com/news'') =
     Inr ([(''url'', py_str ''https://example.com/news''),
           (''media_source'', py_str ''Example''),
           (''date'', py_str ''Date Not Found''),
           (''title'', []),
           (''summary'', py_str ''No readable Malayalam content found.'')], []) \<and>
   [] \<noteq> py_str ''No Title Found''"
proof -
  let ?sp = "\<lparr>soup_title = Some [], soup_paragraphs = [], soup_text = []\<rparr>"
  let ?u = "py_str ''https://example.com/news''"
  let ?a = "\<lparr>art_title = [32, 32], art_publish_date = None\<rparr>"
  have dt1: "method_d ?u (method_c (article_var (Raised None))
              (method_b ?sp (method_a empty_title_world ?u))) = None"
    by (simp add: method_a_def empty_title_calls method_b_None extract_date_empty method_c_None
        article_var_def method_d_None no_url_date)
  have ti1: "title_step (Raised None) ?sp = []"
    by (simp add: title_step_def py_strip_def)
  have tx1: "extract_malayalam_text ?sp = []"
    by (simp add: extract_malayalam_text_def)
  have 1: "analyze_news_article empty_title_world ?u =
     Inr ([(''url'', ?u), (''media_source'', py_str ''Example''), (''date'', NO_DATE),
           (''title'', []), (''summary'', NO_SUMMARY)], [])"
    unfolding analyze_unfold [OF empty_title_calls(1,2)] empty_title_calls lower_example ti1 tx1
      dt1
    by (simp add: truthy_def translate_text_if_needed_def)
  have dt2: "method_d ?u (method_c (article_var (Completed ?a))
              (method_b empty_soup (method_a blank_title_world ?u))) = None"
    by (simp add: method_a_def blank_title_calls method_b_None offline_tiers(2) method_c_None
        article_var_def method_d_None no_url_date)
  have ti2: "title_step (Completed ?a) empty_soup = []"
    by (simp add: title_step_def py_strip_def py_isspace_def)
  have 2: "analyze_news_article blank_title_world ?u =
     Inr ([(''url'', ?u), (''media_source'', py_str ''Example''), (''date'', NO_DATE),
           (''title'', []), (''summary'', NO_SUMMARY)], [])"
    unfolding analyze_unfold [OF blank_title_calls(1,2)] blank_title_calls lower_example ti2
      offline_text dt2
    by (simp add: truthy_def translate_text_if_needed_def)
  from 1 2 show ?thesis
    by (simp add: NO_DATE_def NO_SUMMARY_def py_str_def)
qed

text \<open>
  C5. The media source of the returned record is the publisher mapped to the lowercased
  domain token when that is a key of \<open>MEDIA_MAP\<close>, and the lowercased token capitalized
  otherwise; in particular a token whose lowercase is a key has the key's publisher,
  whatever the case of its letters. For a token of ASCII characters the lowercase is the
  one of the letters A-Z, and capitalizing the lowercased token is capitalizing the
  token.
\<close>

theorem media_source_lookup:
  assumes "analyze_news_article w url = Inr (d, calls)"
      and "tldextract_domain w url = Inr tok"
  shows "map_of d ''media_source'' =
           Some (case map_of MEDIA_MAP (py_lower (unicode_lower w) tok) of
                   Some name \<Rightarrow> name
                 | None \<Rightarrow>
                     py_capitalize (unicode_capitalize w) (py_lower (unicode_lower w) tok)) \<and>
         (\<forall>k v. (k, v) \<in> set MEDIA_MAP \<and> py_lower (unicode_lower w) tok = k \<longrightarrow>
            map_of d ''media_source'' = Some v) \<and>
         (list_all is_ascii tok \<longrightarrow>
            py_lower (unicode_lower w) tok = ascii_lower tok \<and>
            map_of d ''media_source'' =
              Some (case map_of MEDIA_MAP (ascii_lower tok) of
                      Some name \<Rightarrow> name
                    | None \<Rightarrow> py_capitalize (unicode_capitalize w) tok))"
proof -
  from analyze_returns [OF assms(1)] obtain sp where
    sp: "BeautifulSoup w (fetch_html w url) = Inr sp" by blast
  note ms = analyze_fields(3) [OF assms(1) sp assms(2)]
  have keyed: "map_of d ''media_source'' = Some v"
    if "(k, v) \<in> set MEDIA_MAP" "py_lower (unicode_lower w) tok = k" for k v
  proof -
    have "map_of MEDIA_MAP k = Some v"
      using that(1) MEDIA_MAP_distinct by simp
    then show ?thesis
      using ms that(2) by simp
  qed
  have plain: "py_lower (unicode_lower w) tok = ascii_lower tok \<and>
      map_of d ''media_source'' =
        Some (case map_of MEDIA_MAP (ascii_lower tok) of
                Some name \<Rightarrow> name
              | None \<Rightarrow> py_capitalize (unicode_capitalize w) tok)"
    if a: "list_all is_ascii tok"
    using ms capitalize_lower_ascii [OF a, where ctbl = "unicode_capitalize w" and ltbl = "unicode_lower w"]
    by (simp add: py_lower_ascii [OF a] split: option.splits)
  from ms keyed plain show ?thesis by blast
qed

theorem media_source_lookup_witness:
  "(\<exists>d calls.
      analyze_news_article
        (fixed_world (Inr []) (Inr empty_soup) (Inr (py_str ''ManoramaOnline'')) (Raised None)
           (Inr None) (Inr []))
        (py_str ''https://www.ManoramaOnline.com/news'') = Inr (d, calls) \<and>
      map_of d ''media_source'' = Some (py_str ''Malayala Manorama'')) \<and>
   (\<exists>d calls.
      analyze_news_article offline_world (py_str ''https://example.com/news'') = Inr (d, calls) \<and>
      map_of d ''media_source'' = Some (py_str ''Example'')) \<and>
   (\<exists>d calls.
      analyze_news_article
        ((fixed_world (Inr []) (Inr empty_soup) (Inr (8490 # py_str ''eralakaumudi'')) (Raised None)
           (Inr None) (Inr []))
          \<lparr>unicode_lower := map (\<lambda>c. if c = 8490 then 107 else lower_char c)\<rparr>)
        (py_str ''https://example.com/news'') = Inr (d, calls) \<and>
      map_of d ''media_source'' = Some (py_str ''Kerala Kaumudi''))"
proof -
  let ?w = "fixed_world (Inr []) (Inr empty_soup) (Inr (py_str ''ManoramaOnline'')) (Raised None)
           (Inr None) (Inr [])"
  let ?u = "py_str ''https://www.ManoramaOnline.com/news''"
  have t1: "tldextract_domain ?w ?u = Inr (py_str ''ManoramaOnline'')"
    by (simp add: fixed_world_calls)
  obtain d1 c1 where a1: "analyze_news_article ?w ?u = Inr (d1, c1)"
    using analyze_total [of ?w ?u empty_soup "py_str ''ManoramaOnline''"]
    by (auto simp: fixed_world_calls)
  have x1: "list_all is_ascii (py_str ''ManoramaOnline'')"
    by (simp add: py_str_def is_ascii_def)
  have m1: "map_of d1 ''media_source'' = Some (py_str ''Malayala Manorama'')"
    using media_source_lookup [OF a1 t1, THEN conjunct2, THEN conjunct2, rule_format, OF x1]
    by (simp add: MEDIA_MAP_def py_str_def ascii_lower_def lower_char_def)
  let ?v = "py_str ''https://example.com/news''"
  have t2: "tldextract_domain offline_world ?v = Inr (py_str ''example'')"
    by (simp add: offline_calls)
  obtain d2 c2 where a2: "analyze_news_article offline_world ?v = Inr (d2, c2)"
    using analyze_total [of offline_world ?v empty_soup "py_str ''example''"]
    by (auto simp: offline_calls)
  have m2: "map_of d2 ''media_source'' = Some (py_str ''Example'')"
    using media_source_lookup [OF a2 t2, THEN conjunct1]
    by (simp add: lower_example)
  let ?k = "(fixed_world (Inr []) (Inr empty_soup) (Inr (8490 # py_str ''eralakaumudi''))
              (Raised None) (Inr None) (Inr []))
            \<lparr>unicode_lower := map (\<lambda>c. if c = 8490 then 107 else lower_char c)\<rparr>"
  have t3: "tldextract_domain ?k ?v = Inr (8490 # py_str ''eralakaumudi'')"
    by (simp add: fixed_world_calls)
  obtain d3 c3 where a3: "analyze_news_article ?k ?v = Inr (d3, c3)"
    using analyze_total [of ?k ?v empty_soup "8490 # py_str ''eralakaumudi''"]
    by (auto simp: fixed_world_calls)
  have k3: "(py_str ''keralakaumudi'', py_str ''Kerala Kaumudi'') \<in> set MEDIA_MAP \<and>
            py_lower (unicode_lower ?k) (8490 # py_str ''eralakaumudi'') = py_str ''keralakaumudi''"
    by (simp add: MEDIA_MAP_def py_lower_def is_ascii_def py_str_def lower_char_def)
  have m3: "map_of d3 ''media_source'' = Some (py_str ''Kerala Kaumudi'')"
    by (rule media_source_lookup [OF a3 t3, THEN conjunct2, THEN conjunct1, rule_format, OF k3])
  from a1 m1 a2 m2 a3 m3 show ?thesis by blast
qed

text \<open>
  C6. Whatever the page fetch, the structured pass, the date inference and the
  translation service return or raise, \<open>analyze_news_article\<close> returns a record with the
  five fields, as long as the parse of the page and the extraction of the domain return;
  the endpoint then answers 200 with the record when the response renders. An exception
  of the parse, of the domain extraction or of the rendering, which are outside the
  guarded steps, is answered with status 500 and its text. Each guarded failure has its
  fallback: a failed fetch gives the empty page; a structured pass that raises gives the
  title of the \<^verbatim>\<open><title>\<close> tag, or \<open>No Title Found\<close> without one; a failed translation
  leaves the title or the summary as it was; a date inference that raises, or a publish
  date that cannot be formatted, is passed over by the cascade. With no network and no
  date in the URL the record holds the three sentinels.
\<close>

theorem analyze_never_raises_on_substep_failure:
  "(BeautifulSoup w (fetch_html w url) = Inr sp \<and> tldextract_domain w url = Inr tok \<longrightarrow>
      (\<exists>d calls. analyze_news_article w url = Inr (d, calls) \<and>
         map fst d = [''url'', ''media_source'', ''date'', ''title'', ''summary''] \<and>
         (render_json w d = Inr () \<longrightarrow> scrape w url = JSONResponse 200 d) \<and>
         (render_json w d = Inl (Exception msg) \<longrightarrow> scrape w url = HTTPException 500 msg))) \<and>
   (BeautifulSoup w (fetch_html w url) = Inl (Exception msg) \<longrightarrow>
      analyze_news_article w url = Inl (Exception msg) \<and> scrape w url = HTTPException 500 msg) \<and>
   (BeautifulSoup w (fetch_html w url) = Inr sp \<and> tldextract_domain w url = Inl (Exception msg) \<longrightarrow>
      analyze_news_article w url = Inl (Exception msg) \<and> scrape w url = HTTPException 500 msg) \<and>
   (requests_get w url = Inl e1 \<longrightarrow> fetch_html w url = []) \<and>
   (translate w t = Inl e2 \<longrightarrow> fst (translate_text_if_needed (translate w) t) = t) \<and>
   (analyze_news_article w url = Inr (d, calls) \<and> BeautifulSoup w (fetch_html w url) = Inr sp \<longrightarrow>
      (\<forall>ao. newspaper_article w url = Raised ao \<longrightarrow>
         map_of d ''title'' =
           Some (fst (translate_text_if_needed (translate w)
                        (case soup_title sp of Some t \<Rightarrow> py_strip t | None \<Rightarrow> NO_TITLE)))) \<and>
      (\<forall>e. translate w (title_step (newspaper_article w url) sp) = Inl e \<longrightarrow>
         map_of d ''title'' = Some (title_step (newspaper_article w url) sp)) \<and>
      (\<forall>e. extract_malayalam_text sp \<noteq> [] \<and> translate w (extract_malayalam_text sp) = Inl e \<longrightarrow>
         map_of d ''summary'' = Some (extract_malayalam_text sp)) \<and>
      (\<forall>e. find_date w url = Inl e \<longrightarrow>
         map_of d ''date'' =
           Some (case first_value
                        [method_b sp None, method_c (article_var (newspaper_article w url)) None,
                         method_d url None] of
                   Some v \<Rightarrow> v
                 | None \<Rightarrow> NO_DATE)) \<and>
      (\<forall>a e. article_var (newspaper_article w url) = Some a \<and>
           art_publish_date a = Some (Inl e) \<longrightarrow>
         map_of d ''date'' =
           Some (case first_value [method_a w url, method_b sp None, method_d url None] of
                   Some v \<Rightarrow> v
                 | None \<Rightarrow> NO_DATE))) \<and>
   (BeautifulSoup w (fetch_html w url) = Inr empty_soup \<and> tldextract_domain w url = Inr tok \<and>
    requests_get w url = Inl e1 \<and> newspaper_article w url = Raised ao \<and>
    (case ao of None \<Rightarrow> True | Some a \<Rightarrow> art_publish_date a = None) \<and>
    find_date w url = Inl e3 \<and> re_search_url_date url = None \<and>
    render_json w
      [(''url'', url),
       (''media_source'',
        case map_of MEDIA_MAP (py_lower (unicode_lower w) tok) of
          Some name \<Rightarrow> name
        | None \<Rightarrow> py_capitalize (unicode_capitalize w) (py_lower (unicode_lower w) tok)),
       (''date'', NO_DATE), (''title'', NO_TITLE), (''summary'', NO_SUMMARY)] = Inr () \<longrightarrow>
      scrape w url =
        JSONResponse 200
          [(''url'', url),
           (''media_source'',
            case map_of MEDIA_MAP (py_lower (unicode_lower w) tok) of
              Some name \<Rightarrow> name
            | None \<Rightarrow> py_capitalize (unicode_capitalize w) (py_lower (unicode_lower w) tok)),
           (''date'', NO_DATE), (''title'', NO_TITLE), (''summary'', NO_SUMMARY)])"
proof -
  have c1: "\<exists>d calls. analyze_news_article w url = Inr (d, calls) \<and>
         map fst d = [''url'', ''media_source'', ''date'', ''title'', ''summary''] \<and>
         (render_json w d = Inr () \<longrightarrow> scrape w url = JSONResponse 200 d) \<and>
         (render_json w d = Inl (Exception msg) \<longrightarrow> scrape w url = HTTPException 500 msg)"
    if "BeautifulSoup w (fetch_html w url) = Inr sp" "tldextract_domain w url = Inr tok"
    using analyze_unfold [OF that] by (simp add: scrape_def)
  have c2: "analyze_news_article w url = Inl (Exception msg) \<and>
            scrape w url = HTTPException 500 msg"
    if "BeautifulSoup w (fetch_html w url) = Inl (Exception msg)"
    using that by (simp add: analyze_news_article_def scrape_def)
  have c3: "analyze_news_article w url = Inl (Exception msg) \<and>
            scrape w url = HTTPException 500 msg"
    if "BeautifulSoup w (fetch_html w url) = Inr sp" "tldextract_domain w url = Inl (Exception msg)"
    using that by (simp add: analyze_news_article_def scrape_def)
  have c4: "fetch_html w url = []" if "requests_get w url = Inl e1"
    using that by (simp add: fetch_html_def)
  have c5: "fst (translate_text_if_needed (translate w) t) = t" if "translate w t = Inl e2"
    using that by (simp add: translate_text_if_needed_def)
  have c6: "(\<forall>ao. newspaper_article w url = Raised ao \<longrightarrow>
         map_of d ''title'' =
           Some (fst (translate_text_if_needed (translate w)
                        (case soup_title sp of Some t \<Rightarrow> py_strip t | None \<Rightarrow> NO_TITLE)))) \<and>
      (\<forall>e. translate w (title_step (newspaper_article w url) sp) = Inl e \<longrightarrow>
         map_of d ''title'' = Some (title_step (newspaper_article w url) sp)) \<and>
      (\<forall>e. extract_malayalam_text sp \<noteq> [] \<and> translate w (extract_malayalam_text sp) = Inl e \<longrightarrow>
         map_of d ''summary'' = Some (extract_malayalam_text sp)) \<and>
      (\<forall>e. find_date w url = Inl e \<longrightarrow>
         map_of d ''date'' =
           Some (case first_value
                        [method_b sp None, method_c (article_var (newspaper_article w url)) None,
                         method_d url None] of
                   Some v \<Rightarrow> v
                 | None \<Rightarrow> NO_DATE)) \<and>
      (\<forall>a e. article_var (newspaper_article w url) = Some a \<and>
           art_publish_date a = Some (Inl e) \<longrightarrow>
         map_of d ''date'' =
           Some (case first_value [method_a w url, method_b sp None, method_d url None] of
                   Some v \<Rightarrow> v
                 | None \<Rightarrow> NO_DATE))"
    if r: "analyze_news_article w url = Inr (d, calls)"
      and p: "BeautifulSoup w (fetch_html w url) = Inr sp"
  proof -
    from analyze_returns [OF r] obtain tok' where
      tok': "tldextract_domain w url = Inr tok'" by auto
    note f = analyze_fields [OF r p tok']
    have ti: "map_of d ''title'' =
           Some (fst (translate_text_if_needed (translate w)
                        (case soup_title sp of Some t \<Rightarrow> py_strip t | None \<Rightarrow> NO_TITLE)))"
      if "newspaper_article w url = Raised ao" for ao
      using f(5) that by (simp add: title_step_def)
    have tt: "map_of d ''title'' = Some (title_step (newspaper_article w url) sp)"
      if "translate w (title_step (newspaper_article w url) sp) = Inl e" for e
      using f(5) translate_fallback [where service = "translate w", OF that] by simp
    have su: "map_of d ''summary'' = Some (extract_malayalam_text sp)"
      if "extract_malayalam_text sp \<noteq> []" "translate w (extract_malayalam_text sp) = Inl e" for e
      using f(6) that(1) translate_fallback [where service = "translate w", OF that(2)] by simp
    have da: "map_of d ''date'' =
           Some (case first_value
                        [method_b sp None, method_c (article_var (newspaper_article w url)) None,
                         method_d url None] of
                   Some v \<Rightarrow> v
                 | None \<Rightarrow> NO_DATE)"
      if "find_date w url = Inl e" for e
    proof -
      from that have "method_a w url = None" by (simp add: method_a_def)
      from cascade_without_a [OF this] f(4) show ?thesis
        unfolding date_field_cascade by simp
    qed
    have dc: "map_of d ''date'' =
           Some (case first_value [method_a w url, method_b sp None, method_d url None] of
                   Some v \<Rightarrow> v
                 | None \<Rightarrow> NO_DATE)"
      if "article_var (newspaper_article w url) = Some a" "art_publish_date a = Some (Inl e)"
      for a e
    proof -
      from that have "method_c (article_var (newspaper_article w url)) None = None"
        by (simp add: method_c_None)
      from cascade_without_c [OF this] f(4) show ?thesis
        unfolding date_field_cascade by simp
    qed
    from ti tt su da dc show ?thesis by blast
  qed
  have c7: "scrape w url =
        JSONResponse 200
          [(''url'', url),
           (''media_source'',
            case map_of MEDIA_MAP (py_lower (unicode_lower w) tok) of
              Some name \<Rightarrow> name
            | None \<Rightarrow> py_capitalize (unicode_capitalize w) (py_lower (unicode_lower w) tok)),
           (''date'', NO_DATE), (''title'', NO_TITLE), (''summary'', NO_SUMMARY)]"
    if p: "BeautifulSoup w (fetch_html w url) = Inr empty_soup"
      and t: "tldextract_domain w url = Inr tok"
      and r: "newspaper_article w url = Raised ao"
      and a: "case ao of None \<Rightarrow> True | Some a \<Rightarrow> art_publish_date a = None"
      and f: "find_date w url = Inl e3" and u: "re_search_url_date url = None"
      and j: "render_json w
      [(''url'', url),
       (''media_source'',
        case map_of MEDIA_MAP (py_lower (unicode_lower w) tok) of
          Some name \<Rightarrow> name
        | None \<Rightarrow> py_capitalize (unicode_capitalize w) (py_lower (unicode_lower w) tok)),
       (''date'', NO_DATE), (''title'', NO_TITLE), (''summary'', NO_SUMMARY)] = Inr ()"
  proof -
    have mc: "method_c (article_var (Raised ao)) None = None"
      using a by (simp add: method_c_None article_var_def split: option.splits)
    have dt: "method_d url (method_c (article_var (Raised ao))
                     (method_b empty_soup (method_a w url))) = None"
      using f u by (simp add: cascade_eq mc method_a_def method_b_None offline_tiers(2)
          method_d_None truthy_def)
    show ?thesis
      using j unfolding scrape_def analyze_unfold [OF p t] r offline_title offline_text
        translate_NO_TITLE dt
      by (simp add: truthy_def)
  qed
  from c1 c2 c3 c4 c5 c6 c7 show ?thesis by blast
qed

theorem analyze_never_raises_on_substep_failure_witness:
  "scrape offline_world (py_str ''https://example.com/news'') =
     JSONResponse 200
       [(''url'', py_str ''https://example.com/news''),
        (''media_source'', py_str ''Example''),
        (''date'', py_str ''Date Not Found''),
        (''title'', py_str ''No Title Found''),
        (''summary'', py_str ''No readable Malayalam content found.'')] \<and>
   scrape
     (fixed_world (Inr []) (Inl (Exception (py_str ''FeatureNotFound''))) (Inr (py_str ''example''))
        (Raised None) (Inr None) (Inr []))
     (py_str ''https://example.com/news'') = HTTPException 500 (py_str ''FeatureNotFound'') \<and>
   scrape
     (fixed_world (Inr []) (Inr empty_soup) (Inl (Exception (py_str ''bad url'')))
        (Raised None) (Inr None) (Inr []))
     (py_str ''https://example.com/news'') = HTTPException 500 (py_str ''bad url'') \<and>
   scrape
     (offline_world\<lparr>render_json := \<lambda>data. Inl (Exception (py_str ''surrogates not allowed''))\<rparr>)
     (py_str ''https://example.com/news'') = HTTPException 500 (py_str ''surrogates not allowed'') \<and>
   (\<exists>d calls.
      analyze_news_article
        (fixed_world (Inr [])
           (Inr \<lparr>soup_title = None, soup_paragraphs = [[3333, 3334]], soup_text = []\<rparr>)
           (Inr (py_str ''example''))
           (Completed \<lparr>art_title = [3335, 3336], art_publish_date = None\<rparr>) (Inr None)
           (Inl (Exception (py_str ''TranslationNotFound''))))
        (py_str ''https://example.com/news'') = Inr (d, calls) \<and>
      map_of d ''title'' = Some [3335, 3336] \<and> map_of d ''summary'' = Some [3333, 3334])"
proof -
  let ?u = "py_str ''https://example.com/news''"
  note main = analyze_never_raises_on_substep_failure
  have h1: "BeautifulSoup offline_world (fetch_html offline_world ?u) = Inr empty_soup \<and>
    tldextract_domain offline_world ?u = Inr (py_str ''example'') \<and>
    requests_get offline_world ?u = Inl (Exception (py_str ''ConnectionError'')) \<and>
    newspaper_article offline_world ?u = Raised (Some blank_article) \<and>
    (case Some blank_article of None \<Rightarrow> True | Some a \<Rightarrow> art_publish_date a = None) \<and>
    find_date offline_world ?u = Inl (Exception (py_str ''ConnectionError'')) \<and>
    re_search_url_date ?u = None \<and>
    render_json offline_world
      [(''url'', ?u),
       (''media_source'',
        case map_of MEDIA_MAP (py_lower (unicode_lower offline_world) (py_str ''example'')) of
          Some name \<Rightarrow> name
        | None \<Rightarrow> py_capitalize (unicode_capitalize offline_world)
                    (py_lower (unicode_lower offline_world) (py_str ''example''))),
       (''date'', NO_DATE), (''title'', NO_TITLE), (''summary'', NO_SUMMARY)] = Inr ()"
    by (simp add: offline_calls no_url_date blank_article_def)
      (simp add: offline_world_def fixed_world_def)
  have 1: "scrape offline_world ?u =
     JSONResponse 200
       [(''url'', ?u), (''media_source'', py_str ''Example''), (''date'', NO_DATE),
        (''title'', NO_TITLE), (''summary'', NO_SUMMARY)]"
    using main [where w = offline_world and url = ?u and tok = "py_str ''example''"
        and ao = "Some blank_article" and ?e1.0 = "Exception (py_str ''ConnectionError'')"
        and ?e3.0 = "Exception (py_str ''ConnectionError'')",
        THEN conjunct2, THEN conjunct2, THEN conjunct2, THEN conjunct2, THEN conjunct2,
        THEN conjunct2, rule_format, OF h1]
    by (simp add: lower_example)
  let ?w2 = "fixed_world (Inr []) (Inl (Exception (py_str ''FeatureNotFound'')))
        (Inr (py_str ''example'')) (Raised None) (Inr None) (Inr [])"
  have 2: "scrape ?w2 ?u = HTTPException 500 (py_str ''FeatureNotFound'')"
    using main [where w = ?w2 and url = ?u and msg = "py_str ''FeatureNotFound''",
        THEN conjunct2, THEN conjunct1]
    by (simp add: fixed_world_calls)
  let ?w3 = "fixed_world (Inr []) (Inr empty_soup) (Inl (Exception (py_str ''bad url'')))
        (Raised None) (Inr None) (Inr [])"
  have 3: "scrape ?w3 ?u = HTTPException 500 (py_str ''bad url'')"
    using main [where w = ?w3 and url = ?u and sp = empty_soup and msg = "py_str ''bad url''",
        THEN conjunct2, THEN conjunct2, THEN conjunct1]
    by (simp add: fixed_world_calls)
  let ?w4 = "offline_world\<lparr>render_json :=
               \<lambda>data. Inl (Exception (py_str ''surrogates not allowed''))\<rparr>"
  have 4: "scrape ?w4 ?u = HTTPException 500 (py_str ''surrogates not allowed'')"
    using main [where w = ?w4 and url = ?u and sp = empty_soup and tok = "py_str ''example''"
        and msg = "py_str ''surrogates not allowed''", THEN conjunct1]
    by (auto simp: offline_world_def fixed_world_def)
  let ?sp5 = "\<lparr>soup_title = None, soup_paragraphs = [[3333, 3334]], soup_text = []\<rparr>"
  let ?a5 = "\<lparr>art_title = [3335, 3336], art_publish_date = None\<rparr>"
  let ?w5 = "fixed_world (Inr []) (Inr ?sp5) (Inr (py_str ''example'')) (Completed ?a5) (Inr None)
           (Inl (Exception (py_str ''TranslationNotFound'')))"
  obtain d5 c5 where a5: "analyze_news_article ?w5 ?u = Inr (d5, c5)"
    using analyze_total [of ?w5 ?u ?sp5 "py_str ''example''"]
    by (auto simp: fixed_world_calls)
  have p5: "analyze_news_article ?w5 ?u = Inr (d5, c5) \<and>
            BeautifulSoup ?w5 (fetch_html ?w5 ?u) = Inr ?sp5"
    using a5 by (simp add: fixed_world_calls)
  have ti: "title_step (newspaper_article ?w5 ?u) ?sp5 = [3335, 3336]"
    by (simp add: fixed_world_calls title_step_def py_strip_def py_isspace_def)
  have tx: "extract_malayalam_text ?sp5 = [3333, 3334]"
    by (simp add: extract_malayalam_text_def re_search_malayalam_def is_malayalam_def
        kept_char_def py_strip_def py_isspace_def)
  note f5 = main [where w = ?w5 and url = ?u and sp = ?sp5 and d = d5 and calls = c5,
        THEN conjunct2, THEN conjunct2, THEN conjunct2, THEN conjunct2, THEN conjunct2,
        THEN conjunct1, rule_format, OF p5]
  have 5: "map_of d5 ''title'' = Some [3335, 3336]"
    using f5 [THEN conjunct2, THEN conjunct1, rule_format,
        of "Exception (py_str ''TranslationNotFound'')"]
    unfolding ti by (simp add: fixed_world_calls)
  have 6: "map_of d5 ''summary'' = Some [3333, 3334]"
    using f5 [THEN conjunct2, THEN conjunct2, THEN conjunct1, rule_format,
        of "Exception (py_str ''TranslationNotFound'')"]
    unfolding tx by (simp add: fixed_world_calls)
  from 1 2 3 4 a5 5 6 show ?thesis
    by (simp add: NO_DATE_def NO_TITLE_def NO_SUMMARY_def)
qed

text \<open>
  C7. Translation is the identity on a text with no character of the Malayalam block
  U+0D00-U+0D7F: \<open>translate_text_if_needed\<close> returns the text itself, and the list of
  calls to the translation service is empty, whatever the service would answer.
\<close>

theorem translate_identity_without_malayalam:
  assumes "\<not> list_ex is_malayalam text"
  shows "translate_text_if_needed service text = (text, [])"
  using assms by (simp add: translate_text_if_needed_def re_search_malayalam_def)

theorem translate_identity_without_malayalam_witness:
  "\<not> list_ex is_malayalam (py_str ''Kerala news'') \<and>
   translate_text_if_needed (\<lambda>t. Inr (py_str ''changed'')) (py_str ''Kerala news'')
     = (py_str ''Kerala news'', [])"
proof -
  have h: "\<not> list_ex is_malayalam (py_str ''Kerala news'')"
    by (simp add: py_str_def is_malayalam_def)
  show ?thesis
    using h translate_identity_without_malayalam [OF h, of "\<lambda>t. Inr (py_str ''changed'')"]
    by simp
qed

text \<open>
  C8. When no paragraph of the parsed page holds a character of the Malayalam block,
  the summary of the returned record is \<open>No readable Malayalam content found.\<close>, and the
  only texts sent to the translation service are those of the title step: no call is
  made for the summary.
\<close>

theorem summary_sentinel:
  assumes "analyze_news_article w url = Inr (d, calls)"
      and "BeautifulSoup w (fetch_html w url) = Inr sp"
      and "\<not> list_ex is_malayalam (concat (soup_paragraphs sp))"
  shows "map_of d ''summary'' = Some NO_SUMMARY \<and>
         calls = snd (translate_text_if_needed (translate w)
                        (title_step (newspaper_article w url) sp))"
proof -
  from analyze_returns [OF assms(1)] obtain tok where
    tok: "tldextract_domain w url = Inr tok" by auto
  have "extract_malayalam_text sp = []"
    using assms(3) by (simp add: extract_malayalam_text_eq filter_none_malayalam)
  with analyze_fields(6,7) [OF assms(1,2) tok] show ?thesis by simp
qed

theorem summary_sentinel_witness:
  "\<exists>d calls.
     analyze_news_article
       (fixed_world (Inr [])
          (Inr \<lparr>soup_title = None, soup_paragraphs = [py_str ''Hello'', py_str ''No script here''],
                soup_text = py_str ''Hello No script here''\<rparr>)
          (Inr (py_str ''example''))
          (Completed \<lparr>art_title = [3333, 3334], art_publish_date = None\<rparr>)
          (Inr None) (Inr (py_str ''Title'')))
       (py_str ''https://example.com/news'') = Inr (d, calls) \<and>
     map_of d ''summary'' = Some NO_SUMMARY \<and> calls = [[3333, 3334]]"
proof -
  let ?sp = "\<lparr>soup_title = None, soup_paragraphs = [py_str ''Hello'', py_str ''No script here''],
                soup_text = py_str ''Hello No script here''\<rparr>"
  let ?w = "fixed_world (Inr []) (Inr ?sp) (Inr (py_str ''example''))
          (Completed \<lparr>art_title = [3333, 3334], art_publish_date = None\<rparr>)
          (Inr None) (Inr (py_str ''Title''))"
  let ?u = "py_str ''https://example.com/news''"
  have p: "BeautifulSoup ?w (fetch_html ?w ?u) = Inr ?sp"
    by (simp add: fixed_world_calls)
  have n: "\<not> list_ex is_malayalam (concat (soup_paragraphs ?sp))"
    by (simp add: py_str_def is_malayalam_def)
  obtain d calls where a: "analyze_news_article ?w ?u = Inr (d, calls)"
    using analyze_total [of ?w ?u ?sp "py_str ''example''"] by (auto simp: fixed_world_calls)
  have "map_of d ''summary'' = Some NO_SUMMARY \<and> calls = [[3333, 3334]]"
    using summary_sentinel [OF a p n]
    by (simp add: fixed_world_calls title_step_def translate_text_if_needed_def
        re_search_malayalam_def is_malayalam_def py_strip_def py_isspace_def)
  with a show ?thesis by blast
qed

text \<open>
  C9. A returned record has exactly the keys \<open>url\<close>, \<open>media_source\<close>, \<open>date\<close>, \<open>title\<close>
  and \<open>summary\<close>, and its \<open>url\<close> is the input URL unchanged.
\<close>

theorem record_five_fields:
  assumes "analyze_news_article w url = Inr (d, calls)"
  shows "map fst d = [''url'', ''media_source'', ''date'', ''title'', ''summary''] \<and>
         map_of d ''url'' = Some url"
proof -
  from analyze_returns [OF assms] obtain sp tok where
    "BeautifulSoup w (fetch_html w url) = Inr sp" "tldextract_domain w url = Inr tok" by blast
  from analyze_fields(1,2) [OF assms this] show ?thesis by simp
qed

theorem record_five_fields_witness:
  "\<exists>d calls.
     analyze_news_article offline_world (py_str ''https://example.com/news'') = Inr (d, calls) \<and>
     map fst d = [''url'', ''media_source'', ''date'', ''title'', ''summary''] \<and>
     map_of d ''url'' = Some (py_str ''https://example.com/news'')"
proof -
  obtain d calls where
    a: "analyze_news_article offline_world (py_str ''https://example.com/news'') = Inr (d, calls)"
    using analyze_total [of offline_world "py_str ''https://example.com/news''" empty_soup
        "py_str ''example''"]
    by (auto simp: offline_world_def fixed_world_calls)
  from record_five_fields [OF a] a show ?thesis by simp
qed

text \<open>
  C10. The URL tier checks no calendar. When the earlier tiers have no value and the
  leftmost place of the URL where the pattern matches reads a slash, four digits, a
  slash or hyphen, two digits, a slash or hyphen and two digits, the date is the three
  digit groups joined by hyphens, whatever numbers they spell and whatever follows the
  last group (more digits included: the pattern has no trailing boundary).
\<close>

theorem url_date_no_calendar_check:
  assumes "analyze_news_article w url = Inr (d, calls)"
      and "BeautifulSoup w (fetch_html w url) = Inr sp"
      and "method_a w url = None"
      and "extract_malayalam_date (soup_text sp) = None"
      and "method_c (article_var (newspaper_article w url)) None = None"
      and "url = pre @ [47] @ y @ [s1] @ m @ [s2] @ dd @ post"
      and "length y = 4" and "length m = 2" and "length dd = 2"
      and "list_all uni_isdecimal (y @ m @ dd)" and "is_sep s1" and "is_sep s2"
      and "\<forall>i<length pre. url_date_match (drop i url) = None"
  shows "map_of d ''date'' = Some (y @ [45] @ m @ [45] @ dd)"
proof -
  from analyze_returns [OF assms(1)] obtain tok where
    tok: "tldextract_domain w url = Inr tok" by auto
  have "re_search_url_date url = re_search_url_date ([47] @ y @ [s1] @ m @ [s2] @ dd @ post)"
    using assms(13) unfolding assms(6) by (rule re_search_leftmost)
  also have "\<dots> = Some (y, m, dd)"
    by (rule re_search_hit) (rule url_date_match_at [OF assms(7-12)])
  finally have "method_d url None = Some (y @ [45] @ m @ [45] @ dd)"
    by (simp add: method_d_None)
  then show ?thesis
    using analyze_fields(4) [OF assms(1,2) tok] assms(3,4,5)
    unfolding date_field_cascade by (simp add: method_b_None truthy_def)
qed

theorem url_date_no_calendar_check_witness:
  "\<exists>d calls.
     analyze_news_article offline_world (py_str ''https://example.com/2024/99/991/x'')
       = Inr (d, calls) \<and>
     map_of d ''date'' = Some (py_str ''2024-99-99'')"
proof -
  let ?u = "py_str ''https://example.com/2024/99/991/x''"
  let ?pre = "py_str ''https://example.com''"
  obtain d calls where a: "analyze_news_article offline_world ?u = Inr (d, calls)"
    using analyze_total [of offline_world ?u empty_soup "py_str ''example''"]
    by (auto simp: offline_calls)
  have u: "?u = ?pre @ [47] @ py_str ''2024'' @ [47] @ py_str ''99'' @ [47] @ py_str ''99'' @
             py_str ''1/x''"
    by (simp add: py_str_def)
  have digits: "list_all uni_isdecimal (py_str ''2024'' @ py_str ''99'' @ py_str ''99'')"
    by (simp add: py_str_def ascii_isdecimal)
  have left: "\<forall>i<length ?pre. url_date_match (drop i ?u) = None"
    unfolding all_less_list_all by (simp add: py_str_def url_date_eval)
  have "map_of d ''date'' =
          Some (py_str ''2024'' @ [45] @ py_str ''99'' @ [45] @ py_str ''99'')"
    using url_date_no_calendar_check
      [OF a offline_calls(1) offline_tiers(1,2) _ u _ _ _ digits _ _ left]
    by (simp add: offline_calls offline_tiers is_sep_def py_str_def)
  then have "map_of d ''date'' = Some (py_str ''2024-99-99'')"
    by (simp add: py_str_def)
  with a show ?thesis by simp
qed

end
